theory Spec2Isabelle
  imports Main "HOL-Library.Product_Lexorder"
begin

section \<open>Values shared by the services\<close>

text \<open>
  Identifiers are JavaScript strings. An instant is the number of milliseconds since the
  epoch, as \<^verbatim>\<open>Date\<close> and \<^verbatim>\<open>moment()\<close> hold it. Each operation below takes the
  reading of the clock as its argument \<open>now\<close>; the few readings one synchronous
  call makes are taken to be equal.
\<close>

type_synonym userId = string
type_synonym groupId = string
type_synonym adId = string
type_synonym instant = int

text \<open>
  A call either returns a value or throws. \<open>TypeError\<close> is the error the JavaScript
  runtime raises when a property of \<^verbatim>\<open>undefined\<close> is read; \<open>NotConnected\<close> is
  \<^verbatim>\<open>new Error('WhatsApp nao conectado')\<close>; \<open>OtherError\<close> carries the message of any
  other error object.
\<close>

datatype js_error = TypeError | NotConnected | OtherError string

datatype 'a outcome = Returned 'a | Threw js_error

section \<open>DatabaseService: settings and per-user statistics\<close>

text \<open>
  \<^verbatim>\<open>settings.antiSpam\<close> of src/services/databaseService.js. The fields are JavaScript
  numbers; the model keeps them as integers.
\<close>

record antiSpamSettings =
  enabled :: bool
  maxMessagesPerHour :: int
  cooldownMinutes :: int

text \<open>
  The value stored under \<^verbatim>\<open>stats[userId].antiSpam\<close>. It starts out undefined, is an
  object while \<^verbatim>\<open>updateAntiSpamStats\<close> fills it, and becomes a string as soon as
  \<^verbatim>\<open>updateUserStats(userId, 'antiSpam', object)\<close> computes
  \<^verbatim>\<open>(stats[userId][type] || 0) + value\<close>: adding an object concatenates strings. The
  counters inside the object are not modelled, since the object is replaced by that
  string before the call returns.
\<close>

datatype antiSpamField = AS_undefined | AS_object | AS_string string

record userStats =
  adsCreated :: int
  messagesSent :: int
  messagesFailed :: int
  lastActivity :: "instant option"
  antiSpam :: antiSpamField

text \<open>The per-day breakdown \<^verbatim>\<open>dailyStats\<close> is left out: no operation below reads it.\<close>

definition defaultUserStats :: userStats where
  "defaultUserStats =
     \<lparr>adsCreated = 0, messagesSent = 0, messagesFailed = 0, lastActivity = None,
      antiSpam = AS_undefined\<rparr>"

section \<open>AntiSpamService: the state\<close>

text \<open>
  One entry of \<^verbatim>\<open>userActivity\<close>. \<open>successful\<close> and \<open>failed\<close> are \<open>None\<close> when
  the entry was created by \<^verbatim>\<open>canSendMessage\<close>, which leaves both fields undefined;
  incrementing undefined gives NaN, which stays NaN. \<open>firstMessage\<close> is \<open>None\<close>
  only in the default object of \<^verbatim>\<open>getUserActivity\<close>, where it is \<^verbatim>\<open>null\<close>.
\<close>

record activity =
  count :: int
  groups :: "groupId set"
  firstMessage :: "instant option"
  successful :: "int option"
  failed :: "int option"

record blockInfo =
  blockedAt :: instant
  unblockTime :: instant

text \<open>
  The state the anti-spam operations read and write: the two maps of the service, and
  of the database the settings and the per-user statistics. The key of
  \<^verbatim>\<open>userActivity\<close> is the string \<^verbatim>\<open>`${userId}-${currentHour}`\<close>; the hour is an
  ISO-8601 text of fixed length, so the string determines the pair and the model keys
  the map by the pair (user, start of the hour).
\<close>

record rateState =
  settings :: antiSpamSettings
  userActivity :: "(userId \<times> instant) \<Rightarrow> activity option"
  blockedUsers :: "userId \<Rightarrow> blockInfo option"
  stats :: "userId \<Rightarrow> userStats option"

text \<open>
  \<^verbatim>\<open>moment().startOf('hour')\<close>, for a zone whose offset from UTC is a whole number of
  hours (the scheduler's America/Sao_Paulo is UTC-3).
\<close>

definition startOfHour :: "instant \<Rightarrow> instant" where
  "startOfHour t = t - t mod 3600000"

text \<open>The state right after the constructor, for given settings and statistics.\<close>

definition newService :: "antiSpamSettings \<Rightarrow> rateState" where
  "newService cfg =
     \<lparr>settings = cfg, userActivity = (\<lambda>k. None), blockedUsers = (\<lambda>u. None),
      stats = (\<lambda>u. None)\<rparr>"

section \<open>DatabaseService.updateUserStats and AntiSpamService.updateAntiSpamStats\<close>

definition getUserStats :: "rateState \<Rightarrow> userId \<Rightarrow> userStats" where
  "getUserStats st u = (case stats st u of None \<Rightarrow> defaultUserStats | Some s \<Rightarrow> s)"

text \<open>
  \<^verbatim>\<open>updateUserStats(userId, 'antiSpam', object)\<close>: the entry is created when absent,
  the field becomes \<^verbatim>\<open>(field || 0) + object\<close>, a string, and \<^verbatim>\<open>lastActivity\<close> is set.
\<close>

definition objectText :: string where
  "objectText = ''[object Object]''"

definition updateUserStats_antiSpam :: "rateState \<Rightarrow> userId \<Rightarrow> instant \<Rightarrow> rateState" where
  "updateUserStats_antiSpam st u now =
     (let s = (case stats st u of None \<Rightarrow> defaultUserStats | Some s \<Rightarrow> s);
          v = (case antiSpam s of
                 AS_undefined \<Rightarrow> ''0'' @ objectText
               | AS_object \<Rightarrow> objectText @ objectText
               | AS_string x \<Rightarrow> (if x = [] then ''0'' @ objectText else x @ objectText))
      in st\<lparr>stats := (stats st)(u \<mapsto> s\<lparr>antiSpam := AS_string v, lastActivity := Some now\<rparr>)\<rparr>)"

text \<open>
  \<^verbatim>\<open>updateAntiSpamStats(userId, success, action)\<close>. When the stored field is a
  non-empty string, \<^verbatim>\<open>stats.antiSpam.dailyActivity\<close> is undefined and reading
  \<^verbatim>\<open>[today]\<close> of it throws before anything is written. A field that is undefined
  or the empty string is falsy and is replaced by a new object, in the stored entry
  when there is one (\<open>filled\<close>); the object is then handed to \<^verbatim>\<open>updateUserStats\<close>.
\<close>

definition updateAntiSpamStats :: "rateState \<Rightarrow> userId \<Rightarrow> instant \<Rightarrow> unit outcome \<times> rateState" where
  "updateAntiSpamStats st u now =
     (let filled = (case stats st u of
                      None \<Rightarrow> st
                    | Some s \<Rightarrow> st\<lparr>stats := (stats st)(u \<mapsto> s\<lparr>antiSpam := AS_object\<rparr>)\<rparr>)
      in case antiSpam (getUserStats st u) of
           AS_undefined \<Rightarrow> (Returned (), updateUserStats_antiSpam filled u now)
         | AS_object \<Rightarrow> (Returned (), updateUserStats_antiSpam st u now)
         | AS_string x \<Rightarrow>
             (if x = [] then (Returned (), updateUserStats_antiSpam filled u now)
              else (Threw TypeError, st)))"

section \<open>AntiSpamService: blocking\<close>

text \<open>\<^verbatim>\<open>blockUser(userId, minutes)\<close>: the record is stored before the statistics are touched.\<close>

definition blockUser :: "rateState \<Rightarrow> userId \<Rightarrow> int \<Rightarrow> instant \<Rightarrow> unit outcome \<times> rateState" where
  "blockUser st u minutes now =
     updateAntiSpamStats
       (st\<lparr>blockedUsers := (blockedUsers st)(u \<mapsto>
             \<lparr>blockedAt = now, unblockTime = now + minutes * 60000\<rparr>)\<rparr>) u now"

text \<open>\<^verbatim>\<open>isUserBlocked(userId)\<close>: an expired record is deleted by the call that finds it.\<close>

definition isUserBlocked :: "rateState \<Rightarrow> userId \<Rightarrow> instant \<Rightarrow> bool \<times> rateState" where
  "isUserBlocked st u now =
     (case blockedUsers st u of
        None \<Rightarrow> (False, st)
      | Some b \<Rightarrow>
          (if unblockTime b < now
           then (False, st\<lparr>blockedUsers := (blockedUsers st)(u := None)\<rparr>)
           else (True, st)))"

text \<open>
  \<^verbatim>\<open>getTimeUntilUnblock(userId)\<close>. \<^verbatim>\<open>moment(a).diff(b, 'minutes')\<close> truncates towards
  zero. The four texts the source builds are the four constructors.
\<close>

datatype timeLeft = NotAvailable | Agora | Minutos int | HorasMinutos int int

definition diffMinutes :: "instant \<Rightarrow> instant \<Rightarrow> int" where
  "diffMinutes a b = (if b \<le> a then (a - b) div 60000 else - ((b - a) div 60000))"

definition getTimeUntilUnblock :: "rateState \<Rightarrow> userId \<Rightarrow> instant \<Rightarrow> timeLeft" where
  "getTimeUntilUnblock st u now =
     (case blockedUsers st u of
        None \<Rightarrow> NotAvailable
      | Some b \<Rightarrow>
          (let left = diffMinutes (unblockTime b) now
           in if left \<le> 0 then Agora
              else if left < 60 then Minutos left
              else HorasMinutos (left div 60) (left mod 60)))"

definition unblockUser :: "rateState \<Rightarrow> userId \<Rightarrow> bool \<times> rateState" where
  "unblockUser st u =
     (case blockedUsers st u of
        Some b \<Rightarrow> (True, st\<lparr>blockedUsers := (blockedUsers st)(u := None)\<rparr>)
      | None \<Rightarrow> (False, st))"

section \<open>AntiSpamService: admission and recording\<close>

text \<open>
  The answers of \<^verbatim>\<open>canSendMessage\<close>: \<^verbatim>\<open>{allowed: true}\<close>, or
  \<^verbatim>\<open>{allowed: false, reason, ...}\<close> with reason \<^verbatim>\<open>'blocked'\<close> (carrying
  \<^verbatim>\<open>unblockTime\<close> and the time left that the message quotes), \<^verbatim>\<open>'rate_limit'\<close> or
  \<^verbatim>\<open>'duplicate_group'\<close>.
\<close>

datatype admission =
    Allowed
  | Denied_blocked instant timeLeft
  | Denied_rate_limit
  | Denied_duplicate_group

definition emptyActivity :: "instant \<Rightarrow> activity" where
  "emptyActivity now =
     \<lparr>count = 0, groups = {}, firstMessage = Some now, successful = None, failed = None\<rparr>"

text \<open>
  \<^verbatim>\<open>moment().diff(moment(activity.firstMessage), 'minutes') < 5\<close>; with no first
  message the difference is NaN and the comparison is false.
\<close>

definition recentlyStarted :: "activity \<Rightarrow> instant \<Rightarrow> bool" where
  "recentlyStarted a now =
     (case firstMessage a of None \<Rightarrow> False | Some f \<Rightarrow> diffMinutes now f < 5)"

definition canSendMessage ::
  "rateState \<Rightarrow> userId \<Rightarrow> groupId \<Rightarrow> instant \<Rightarrow> admission outcome \<times> rateState" where
  "canSendMessage st u g now =
     (if \<not> enabled (settings st) then (Returned Allowed, st)
      else
        (case isUserBlocked st u now of
           (True, st1) \<Rightarrow>
             (case blockedUsers st1 u of
                None \<Rightarrow> (Threw TypeError, st1)
              | Some b \<Rightarrow>
                  (Returned (Denied_blocked (unblockTime b) (getTimeUntilUnblock st1 u now)), st1))
         | (False, st1) \<Rightarrow>
             (let k = (u, startOfHour now);
                  st2 = (case userActivity st1 k of
                           None \<Rightarrow> st1\<lparr>userActivity := (userActivity st1)(k \<mapsto> emptyActivity now)\<rparr>
                         | Some a \<Rightarrow> st1);
                  a = (case userActivity st2 k of None \<Rightarrow> emptyActivity now | Some a \<Rightarrow> a)
              in if maxMessagesPerHour (settings st2) \<le> count a
                 then (case blockUser st2 u (cooldownMinutes (settings st2)) now of
                         (Threw e, st3) \<Rightarrow> (Threw e, st3)
                       | (Returned x, st3) \<Rightarrow> (Returned Denied_rate_limit, st3))
                 else if g \<in> groups a \<and> 0 < count a \<and> recentlyStarted a now
                 then (Returned Denied_duplicate_group, st2)
                 else (Returned Allowed, st2))))"

text \<open>
  \<^verbatim>\<open>recordMessageSent(userId, groupId, success)\<close>: the counter and the group set are
  updated before the statistics, so they are updated also when the statistics throw.
\<close>

definition freshActivity :: "instant \<Rightarrow> activity" where
  "freshActivity now =
     \<lparr>count = 0, groups = {}, firstMessage = Some now, successful = Some 0, failed = Some 0\<rparr>"

definition recordMessageSent ::
  "rateState \<Rightarrow> userId \<Rightarrow> groupId \<Rightarrow> bool \<Rightarrow> instant \<Rightarrow> unit outcome \<times> rateState" where
  "recordMessageSent st u g success now =
     (let k = (u, startOfHour now);
          a = (case userActivity st k of None \<Rightarrow> freshActivity now | Some a \<Rightarrow> a);
          a1 = a\<lparr>count := count a + 1, groups := insert g (groups a)\<rparr>;
          a2 = (if success then a1\<lparr>successful := map_option (\<lambda>n. n + 1) (successful a1)\<rparr>
                else a1\<lparr>failed := map_option (\<lambda>n. n + 1) (failed a1)\<rparr>)
      in updateAntiSpamStats (st\<lparr>userActivity := (userActivity st)(k \<mapsto> a2)\<rparr>) u now)"

text \<open>
  \<^verbatim>\<open>getUserActivity(userId)\<close> and \<^verbatim>\<open>validateBroadcast(userId, groups)\<close>. The answers:
  \<^verbatim>\<open>{valid: true}\<close>, or \<^verbatim>\<open>{valid: false, reason, ...}\<close> with reason
  \<^verbatim>\<open>'user_blocked'\<close>, \<^verbatim>\<open>'rate_limit'\<close> (carrying \<^verbatim>\<open>maxGroups\<close>) or
  \<^verbatim>\<open>'duplicate_groups'\<close> (carrying the duplicates).
\<close>

definition getUserActivity :: "rateState \<Rightarrow> userId \<Rightarrow> instant \<Rightarrow> activity" where
  "getUserActivity st u now =
     (case userActivity st (u, startOfHour now) of
        Some a \<Rightarrow> a
      | None \<Rightarrow> \<lparr>count = 0, groups = {}, firstMessage = None, successful = Some 0, failed = Some 0\<rparr>)"

datatype validation =
    Valid
  | Invalid_user_blocked timeLeft
  | Invalid_rate_limit int
  | Invalid_duplicate_groups "groupId list"

definition validateBroadcast ::
  "rateState \<Rightarrow> userId \<Rightarrow> groupId list \<Rightarrow> instant \<Rightarrow> validation \<times> rateState" where
  "validateBroadcast st u gs now =
     (if \<not> enabled (settings st) then (Valid, st)
      else
        (case isUserBlocked st u now of
           (True, st1) \<Rightarrow> (Invalid_user_blocked (getTimeUntilUnblock st1 u now), st1)
         | (False, st1) \<Rightarrow>
             (let a = getUserActivity st1 u now;
                  remainingMessages = maxMessagesPerHour (settings st1) - count a;
                  duplicateGroups = filter (\<lambda>g. g \<in> groups a) gs
              in if remainingMessages < int (length gs)
                 then (Invalid_rate_limit remainingMessages, st1)
                 else if 0 < length duplicateGroups
                 then (Invalid_duplicate_groups duplicateGroups, st1)
                 else (Valid, st1))))"

section \<open>AntiSpamService: the hourly sweep\<close>










section \<open>Callers that honour the admission check\<close>














section \<open>Tenants, a ceiling of one and some runs\<close>













section \<open>Campaigns in the database\<close>

text \<open>
  \<^verbatim>\<open>ad.stats\<close> and a campaign record of src/server.js. A field of \<open>ad_stats\<close> is
  \<open>None\<close> when the property is absent from the object; \<open>sentCount\<close> and
  \<open>failedCount\<close> are the properties \<^verbatim>\<open>sent\<close> and \<^verbatim>\<open>failed\<close>. An empty \<open>imagePath\<close> or
  schedule text is falsy, as \<^verbatim>\<open>null\<close> is.
\<close>

record ad_stats =
  sentCount :: "int option"
  failedCount :: "int option"
  lastSent :: "instant option"

record ad =
  idOf :: adId
  userId :: userId
  title :: string
  message :: string
  imagePath :: "string option"
  groups :: "groupId list"
  scheduleDate :: "string option"
  scheduleTime :: "string option"
  repeat :: string
  active :: bool
  adStats :: "ad_stats option"

definition getAd :: "ad list \<Rightarrow> adId \<Rightarrow> ad option" where
  "getAd as i = find (\<lambda>a. idOf a = i) as"

text \<open>
  \<^verbatim>\<open>{ ...ad.stats, ...stats }\<close>: a property of the second object, when present,
  replaces the one of the first.
\<close>

definition mergeStats :: "ad_stats option \<Rightarrow> ad_stats \<Rightarrow> ad_stats" where
  "mergeStats old new =
     (let base = (case old of None \<Rightarrow> \<lparr>sentCount = None, failedCount = None, lastSent = None\<rparr> | Some s \<Rightarrow> s)
      in \<lparr>sentCount = (case sentCount new of None \<Rightarrow> sentCount base | Some x \<Rightarrow> Some x),
          failedCount = (case failedCount new of None \<Rightarrow> failedCount base | Some x \<Rightarrow> Some x),
          lastSent = (case lastSent new of None \<Rightarrow> lastSent base | Some x \<Rightarrow> Some x)\<rparr>)"

text \<open>
  \<^verbatim>\<open>updateAd(id, adData)\<close> replaces the first campaign that has the id. The model
  writes the stored campaign with its statistics replaced, which is what
  \<^verbatim>\<open>updateAdStats\<close> passes.
\<close>

fun replaceStats :: "ad list \<Rightarrow> adId \<Rightarrow> ad_stats \<Rightarrow> ad list" where
  "replaceStats [] i s = []"
| "replaceStats (a # as) i s =
     (if idOf a = i then a\<lparr>adStats := Some (mergeStats (adStats a) s)\<rparr> # as
      else a # replaceStats as i s)"

text \<open>
  \<^verbatim>\<open>updateUserStats(userId, type, value)\<close> for the two numeric counters that
  \<^verbatim>\<open>updateAdStats\<close> feeds: the entry is created when absent, the counter grows by the
  value, and \<^verbatim>\<open>lastActivity\<close> is set.
\<close>

definition updateUserStats_messages ::
  "rateState \<Rightarrow> userId \<Rightarrow> int \<Rightarrow> int \<Rightarrow> instant \<Rightarrow> rateState" where
  "updateUserStats_messages st u addSent addFailed now =
     (let s = (case rateState.stats st u of None \<Rightarrow> defaultUserStats | Some s \<Rightarrow> s)
      in st\<lparr>rateState.stats := (rateState.stats st)(u \<mapsto>
            s\<lparr>messagesSent := messagesSent s + addSent,
              messagesFailed := messagesFailed s + addFailed,
              lastActivity := Some now\<rparr>)\<rparr>)"

section \<open>The server: the services side by side\<close>

text \<open>
  One entry of \<^verbatim>\<open>connections\<close>: the socket (named by a number), the flag
  \<^verbatim>\<open>connected\<close>, and \<^verbatim>\<open>sock.ws.readyState\<close>, where 1 is an open transport.
\<close>

record connection =
  sock :: nat
  connected :: bool
  readyState :: nat

text \<open>
  The services that src/server.js creates side by side, over one database: the
  anti-spam service with the per-user statistics (\<open>rate\<close>), the campaigns of the
  database, and of the WhatsApp service the two maps \<^verbatim>\<open>connections\<close> and
  \<^verbatim>\<open>qrCodes\<close>. \<open>reconnectTimers\<close> lists, oldest first, the users for whom a
  \<^verbatim>\<open>setTimeout(() => this.connectUser(userId), reconnectDelay)\<close> is pending, and
  \<open>nextSock\<close> is the name the next socket will get.
\<close>

record server =
  rate :: rateState
  ads :: "ad list"
  connections :: "userId \<Rightarrow> connection option"
  qrCodes :: "userId \<Rightarrow> string option"
  reconnectTimers :: "userId list"
  nextSock :: nat

text \<open>\<^verbatim>\<open>updateAdStats(adId, stats)\<close>: nothing happens when no campaign has the id.\<close>

definition updateAdStats :: "server \<Rightarrow> adId \<Rightarrow> ad_stats \<Rightarrow> instant \<Rightarrow> server" where
  "updateAdStats st i s now =
     (case getAd (ads st) i of
        None \<Rightarrow> st
      | Some a \<Rightarrow>
          st\<lparr>ads := replaceStats (ads st) i s,
             rate := updateUserStats_messages (rate st) (userId a)
                       (case sentCount s of None \<Rightarrow> 0 | Some x \<Rightarrow> x)
                       (case failedCount s of None \<Rightarrow> 0 | Some x \<Rightarrow> x) now\<rparr>)"

section \<open>WhatsAppService: sending\<close>

definition isUserConnected :: "server \<Rightarrow> userId \<Rightarrow> bool" where
  "isUserConnected st u =
     (case connections st u of None \<Rightarrow> False | Some c \<Rightarrow> connected c \<and> readyState c = 1)"

text \<open>
  A broadcast waits two seconds after every send, and the connection can change while
  it waits. What one call of \<^verbatim>\<open>sendAd\<close> finds is therefore given from outside, one
  record per call: whether the user still has an entry in \<^verbatim>\<open>connections\<close>, whether
  \<^verbatim>\<open>isUserConnected\<close> holds, whether the image file exists, and the error, if any,
  with which \<^verbatim>\<open>sharp\<close>, \<^verbatim>\<open>fs.readFile\<close> and \<^verbatim>\<open>sock.sendMessage\<close> fail.
\<close>

record sendEnv =
  hasConnection :: bool
  stillConnected :: bool
  imageExists :: bool
  sharpError :: "string option"
  readFileError :: "string option"
  sendMessageError :: "string option"

record sendResult =
  success :: bool
  error :: "js_error option"

definition hasImage :: "ad \<Rightarrow> sendEnv \<Rightarrow> bool" where
  "hasImage a e = (imagePath a \<noteq> None \<and> imagePath a \<noteq> Some [] \<and> imageExists e)"

definition sendMessage :: "sendEnv \<Rightarrow> sendResult" where
  "sendMessage e =
     (case sendMessageError e of
        None \<Rightarrow> \<lparr>success = True, error = None\<rparr>
      | Some m \<Rightarrow> \<lparr>success = False, error = Some (OtherError m)\<rparr>)"

text \<open>
  \<^verbatim>\<open>sendAd\<close> of src/services/whatsappService.js: the connection test and the image
  processing stand before the \<^verbatim>\<open>try\<close>, so their errors leave the function; only
  the error of \<^verbatim>\<open>sock.sendMessage\<close> is caught and returned.
\<close>

definition sendAd :: "userId \<Rightarrow> ad \<Rightarrow> groupId \<Rightarrow> sendEnv \<Rightarrow> sendResult outcome" where
  "sendAd u a g e =
     (if \<not> hasConnection e \<or> \<not> stillConnected e then Threw NotConnected
      else if hasImage a e then
        (case sharpError e of
           Some m \<Rightarrow> Threw (OtherError m)
         | None \<Rightarrow> Returned (sendMessage e))
      else Returned (sendMessage e))"

text \<open>
  \<^verbatim>\<open>sendAd\<close> of src/unnamed/part_003: the whole body is inside the \<^verbatim>\<open>try\<close>, and
  \<^verbatim>\<open>processImage\<close> falls back to reading the file when \<^verbatim>\<open>sharp\<close> fails. It tests
  only that the entry and its socket exist.
\<close>

definition sendAd_part003 :: "userId \<Rightarrow> ad \<Rightarrow> groupId \<Rightarrow> sendEnv \<Rightarrow> sendResult outcome" where
  "sendAd_part003 u a g e =
     (if \<not> hasConnection e then Returned \<lparr>success = False, error = Some NotConnected\<rparr>
      else if hasImage a e \<and> sharpError e \<noteq> None \<and> readFileError e \<noteq> None
      then Returned \<lparr>success = False, error = map_option OtherError (readFileError e)\<rparr>
      else Returned (sendMessage e))"

text \<open>
  The result object of a broadcast. \<open>totalCount\<close> is the property \<^verbatim>\<open>total\<close>, and
  \<open>errorList\<close> the property \<^verbatim>\<open>errors\<close>, a list of \<^verbatim>\<open>{groupId, error}\<close>.
\<close>

record broadcastResults =
  totalCount :: nat
  sent :: nat
  failed :: nat
  errorList :: "(groupId \<times> js_error option) list"

definition tally :: "broadcastResults \<Rightarrow> groupId \<Rightarrow> sendResult \<Rightarrow> broadcastResults" where
  "tally res g r =
     (if success r then res\<lparr>sent := sent res + 1\<rparr>
      else res\<lparr>failed := failed res + 1, errorList := errorList res @ [(g, error r)]\<rparr>)"

text \<open>
  The loop of \<^verbatim>\<open>broadcastAd\<close> in src/services/whatsappService.js, from the \<open>i\<close>-th
  call of \<^verbatim>\<open>sendAd\<close> on. It returns the outcome together with the groups for which
  \<^verbatim>\<open>sendAd\<close> was called, in the order of the calls. An error that leaves
  \<^verbatim>\<open>sendAd\<close> leaves the loop and the function. The pause of two seconds after each
  send passes no value and is not modelled.
\<close>

fun broadcastLoop ::
  "userId \<Rightarrow> ad \<Rightarrow> (nat \<Rightarrow> sendEnv) \<Rightarrow> nat \<Rightarrow> groupId list \<Rightarrow> broadcastResults
     \<Rightarrow> broadcastResults outcome \<times> groupId list" where
  "broadcastLoop u a w i [] res = (Returned res, [])"
| "broadcastLoop u a w i (g # gs) res =
     (case sendAd u a g (w i) of
        Threw e \<Rightarrow> (Threw e, [g])
      | Returned r \<Rightarrow>
          (case broadcastLoop u a w (Suc i) gs (tally res g r) of
             (out, called) \<Rightarrow> (out, g # called)))"

definition broadcastAd ::
  "server \<Rightarrow> userId \<Rightarrow> ad \<Rightarrow> (nat \<Rightarrow> sendEnv) \<Rightarrow> broadcastResults outcome \<times> groupId list" where
  "broadcastAd st u a w =
     (if \<not> isUserConnected st u then (Threw NotConnected, [])
      else broadcastLoop u a w 0 (groups a)
             \<lparr>totalCount = length (groups a), sent = 0, failed = 0, errorList = []\<rparr>)"

text \<open>
  The loop of \<^verbatim>\<open>broadcastAd\<close> in src/unnamed/part_003: the call of \<^verbatim>\<open>sendAd\<close> is
  inside a \<^verbatim>\<open>try\<close> whose handler counts a failure for the group and goes on.
\<close>

fun broadcastLoop_part003 ::
  "userId \<Rightarrow> ad \<Rightarrow> (nat \<Rightarrow> sendEnv) \<Rightarrow> nat \<Rightarrow> groupId list \<Rightarrow> broadcastResults
     \<Rightarrow> broadcastResults outcome \<times> groupId list" where
  "broadcastLoop_part003 u a w i [] res = (Returned res, [])"
| "broadcastLoop_part003 u a w i (g # gs) res =
     (case broadcastLoop_part003 u a w (Suc i) gs
             (case sendAd_part003 u a g (w i) of
                Returned r \<Rightarrow> tally res g r
              | Threw e \<Rightarrow> res\<lparr>failed := failed res + 1, errorList := errorList res @ [(g, Some e)]\<rparr>) of
        (out, called) \<Rightarrow> (out, g # called))"

definition broadcastAd_part003 ::
  "server \<Rightarrow> userId \<Rightarrow> ad \<Rightarrow> (nat \<Rightarrow> sendEnv) \<Rightarrow> broadcastResults outcome \<times> groupId list" where
  "broadcastAd_part003 st u a w =
     (if \<not> isUserConnected st u then (Threw NotConnected, [])
      else broadcastLoop_part003 u a w 0 (groups a)
             \<lparr>totalCount = length (groups a), sent = 0, failed = 0, errorList = []\<rparr>)"

section \<open>SchedulerService.executeAd\<close>

text \<open>\<^verbatim>\<open>ad.stats?.sent || 0\<close> and \<^verbatim>\<open>ad.stats?.failed || 0\<close>.\<close>

definition sentSoFar :: "ad \<Rightarrow> int" where
  "sentSoFar a = (case adStats a of None \<Rightarrow> 0 | Some s \<Rightarrow> (case sentCount s of None \<Rightarrow> 0 | Some x \<Rightarrow> x))"

definition failedSoFar :: "ad \<Rightarrow> int" where
  "failedSoFar a = (case adStats a of None \<Rightarrow> 0 | Some s \<Rightarrow> (case failedCount s of None \<Rightarrow> 0 | Some x \<Rightarrow> x))"

text \<open>
  \<^verbatim>\<open>executeAd(ad)\<close> of the scheduler (src/services/whatsappService.json, second
  part). It returns nothing; the model returns the new server and the groups for which
  \<^verbatim>\<open>sendAd\<close> was called. An error of \<^verbatim>\<open>broadcastAd\<close> is caught and every group of the
  campaign is counted as failed.
\<close>

definition executeAd ::
  "server \<Rightarrow> ad \<Rightarrow> (nat \<Rightarrow> sendEnv) \<Rightarrow> instant \<Rightarrow> unit outcome \<times> server \<times> groupId list" where
  "executeAd st a w now =
     (if \<not> isUserConnected st (userId a)
      then (Returned (),
            updateAdStats st (idOf a)
              \<lparr>sentCount = None, failedCount = Some (failedSoFar a + int (length (groups a))),
               lastSent = Some now\<rparr> now,
            [])
      else
        (case broadcastAd st (userId a) a w of
           (Returned r, called) \<Rightarrow>
             (Returned (),
              updateAdStats st (idOf a)
                \<lparr>sentCount = Some (sentSoFar a + int (sent r)),
                 failedCount = Some (failedSoFar a + int (failed r)),
                 lastSent = Some now\<rparr> now,
              called)
         | (Threw e, called) \<Rightarrow>
             (Returned (),
              updateAdStats st (idOf a)
                \<lparr>sentCount = None, failedCount = Some (failedSoFar a + int (length (groups a))),
                 lastSent = Some now\<rparr> now,
              called)))"

section \<open>Reading the outcome of the attempts\<close>

text \<open>
  The attempts of a broadcast that starts with the \<open>i\<close>-th call of \<^verbatim>\<open>sendAd\<close>: each
  group with what its call finds. An attempt succeeded when \<^verbatim>\<open>sendAd\<close> returned
  \<^verbatim>\<open>{success: true}\<close>; otherwise its error is the one returned or thrown.
\<close>

definition attemptsOf :: "(nat \<Rightarrow> sendEnv) \<Rightarrow> nat \<Rightarrow> groupId list \<Rightarrow> (groupId \<times> sendEnv) list" where
  "attemptsOf w i gs = zip gs (map w [i..<i + length gs])"

definition succeeded :: "sendResult outcome \<Rightarrow> bool" where
  "succeeded r = (case r of Returned x \<Rightarrow> success x | Threw e \<Rightarrow> False)"

definition errorOf :: "sendResult outcome \<Rightarrow> js_error option" where
  "errorOf r = (case r of Returned x \<Rightarrow> error x | Threw e \<Rightarrow> Some e)"

definition returns :: "sendResult outcome \<Rightarrow> bool" where
  "returns r = (case r of Returned x \<Rightarrow> True | Threw e \<Rightarrow> False)"

text \<open>
  The result object that counts every attempt of a list on its own: an attempt that
  succeeded adds one to \<open>sent\<close>, any other adds one to \<open>failed\<close> and its group and
  error to the list, in the order of the attempts.
\<close>

definition accounted ::
  "broadcastResults \<Rightarrow> (groupId \<times> sendResult outcome) list \<Rightarrow> broadcastResults" where
  "accounted res outs =
     \<lparr>totalCount = totalCount res,
      sent = sent res + length (filter (\<lambda>(g, r). succeeded r) outs),
      failed = failed res + length (filter (\<lambda>(g, r). \<not> succeeded r) outs),
      errorList = errorList res @ map (\<lambda>(g, r). (g, errorOf r)) (filter (\<lambda>(g, r). \<not> succeeded r) outs)\<rparr>"

section \<open>A campaign, two servers and three courses of events\<close>

text \<open>
  The concrete values the properties below are tried on: a campaign of user u1 with
  three groups; a server on which u1 is connected and one on which nobody is, both
  with anti-spam enabled and a ceiling of two messages per hour; a course of events
  in which every send succeeds, one in which \<^verbatim>\<open>sock.sendMessage\<close> fails for the
  second group, and one in which the connection is gone when the second group is due.
\<close>

definition exampleAd :: ad where
  "exampleAd =
     \<lparr>idOf = ''ad1'', userId = ''u1'', title = ''Sale'', message = ''Today only'',
      imagePath = None, groups = [''g1'', ''g2'', ''g3''],
      scheduleDate = Some ''2025-01-01'', scheduleTime = Some ''10:00'', repeat = ''daily'',
      active = True,
      adStats = Some \<lparr>sentCount = Some 4, failedCount = Some 1, lastSent = None\<rparr>\<rparr>"

definition onlineServer :: server where
  "onlineServer =
     \<lparr>rate = newService \<lparr>enabled = True, maxMessagesPerHour = 2, cooldownMinutes = 60\<rparr>,
      ads = [exampleAd],
      connections = [''u1'' \<mapsto> \<lparr>sock = 0, connected = True, readyState = 1\<rparr>],
      qrCodes = (\<lambda>u. None), reconnectTimers = [], nextSock = 1\<rparr>"

definition offlineServer :: server where
  "offlineServer =
     \<lparr>rate = newService \<lparr>enabled = True, maxMessagesPerHour = 2, cooldownMinutes = 60\<rparr>,
      ads = [exampleAd],
      connections = (\<lambda>u. None),
      qrCodes = (\<lambda>u. None), reconnectTimers = [], nextSock = 0\<rparr>"

definition allDelivered :: "nat \<Rightarrow> sendEnv" where
  "allDelivered i =
     \<lparr>hasConnection = True, stillConnected = True, imageExists = False, sharpError = None,
      readFileError = None, sendMessageError = None\<rparr>"

definition secondRefused :: "nat \<Rightarrow> sendEnv" where
  "secondRefused i =
     (if i = 1 then (allDelivered i)\<lparr>sendMessageError := Some ''not-authorized''\<rparr>
      else allDelivered i)"

definition secondOffline :: "nat \<Rightarrow> sendEnv" where
  "secondOffline i =
     (if i = 1 then (allDelivered i)\<lparr>hasConnection := False, stillConnected := False\<rparr>
      else allDelivered i)"

section \<open>Calendar time in the scheduler's zone\<close>

text \<open>
  A \<^verbatim>\<open>moment\<close> in the scheduler's zone, by its calendar fields. The year and the
  month are kept as one count of months, \<open>monthIndex = year * 12 + month\<close> with the
  month from 0 as \<^verbatim>\<open>moment.month()\<close> gives it; \<open>date\<close> is the day of the month.
  The zone is taken to have a constant offset from UTC (America/Sao_Paulo has been at
  UTC-3 without daylight saving since 2019), so that one instant is before another
  exactly when its fields come first.
\<close>

record moment =
  monthIndex :: int
  date :: nat
  hour :: nat
  minute :: nat
  second :: nat
  millisecond :: nat

definition yearOf :: "moment \<Rightarrow> int" where
  "yearOf m = monthIndex m div 12"

definition monthOf :: "moment \<Rightarrow> int" where
  "monthOf m = monthIndex m mod 12"

definition isBefore :: "moment \<Rightarrow> moment \<Rightarrow> bool" where
  "isBefore a b =
     ((monthIndex a, date a, hour a, minute a, second a, millisecond a)
        < (monthIndex b, date b, hour b, minute b, second b, millisecond b))"

definition isLeapYear :: "int \<Rightarrow> bool" where
  "isLeapYear y = ((y mod 4 = 0 \<and> y mod 100 \<noteq> 0) \<or> y mod 400 = 0)"

text \<open>The days of the month that a count of months names.\<close>

definition daysInMonth :: "int \<Rightarrow> nat" where
  "daysInMonth mi =
     (let m = mi mod 12 in
      if m = 1 then (if isLeapYear (mi div 12) then 29 else 28)
      else if m = 3 \<or> m = 5 \<or> m = 8 \<or> m = 10 then 30
      else 31)"

text \<open>
  \<^verbatim>\<open>add(1, 'day')\<close>, \<^verbatim>\<open>add(1, 'week')\<close>, \<^verbatim>\<open>add(1, 'month')\<close> and \<^verbatim>\<open>add(1, 'year')\<close>.
  Days roll over into the next month; a week is seven days; a month or a year later
  the day of the month is cut down to the last day of the month reached.
\<close>

definition addDay :: "moment \<Rightarrow> moment" where
  "addDay m =
     (if daysInMonth (monthIndex m) < date m + 1
      then m\<lparr>monthIndex := monthIndex m + 1, date := 1\<rparr>
      else m\<lparr>date := date m + 1\<rparr>)"

definition addMonths :: "int \<Rightarrow> moment \<Rightarrow> moment" where
  "addMonths n m =
     m\<lparr>monthIndex := monthIndex m + n, date := min (date m) (daysInMonth (monthIndex m + n))\<rparr>"

datatype recurrence = Daily | Weekly | Monthly | Yearly

fun addOne :: "recurrence \<Rightarrow> moment \<Rightarrow> moment" where
  "addOne Daily m = addDay m"
| "addOne Weekly m = (addDay ^^ 7) m"
| "addOne Monthly m = addMonths 1 m"
| "addOne Yearly m = addMonths 12 m"

text \<open>
  \<^verbatim>\<open>moment.day()\<close>, the day of the week with Sunday as 0, from the count of days since
  1970-01-01, a Thursday.
\<close>

definition daysFromCivil :: "int \<Rightarrow> int \<Rightarrow> int \<Rightarrow> int" where
  "daysFromCivil y m d =
     (let y1 = (if m \<le> 2 then y - 1 else y);
          era = y1 div 400;
          yoe = y1 - era * 400;
          doy = (153 * ((m + 9) mod 12) + 2) div 5 + d - 1;
          doe = yoe * 365 + yoe div 4 - yoe div 100 + doy
      in era * 146097 + doe - 719468)"

definition dayOfWeek :: "moment \<Rightarrow> nat" where
  "dayOfWeek m = nat ((daysFromCivil (yearOf m) (monthOf m + 1) (int (date m)) + 4) mod 7)"

section \<open>Reading the schedule of a campaign\<close>

text \<open>
  \<^verbatim>\<open>moment.tz(text, 'YYYY-MM-DD HH:mm', zone)\<close> with \<^verbatim>\<open>isValid()\<close> is an argument of
  the scheduler's functions below: a function from the text to the moment, \<open>None\<close>
  when the moment is not valid. \<open>parseDateTime\<close> is such a function for the texts the
  form of the panel sends, four digits of year, two of month and day, two of hour and
  minute; the library accepts other texts as well.
\<close>

definition digit :: "char \<Rightarrow> nat option" where
  "digit c = (let n = of_char c :: nat in if 48 \<le> n \<and> n \<le> 57 then Some (n - 48) else None)"

fun number :: "string \<Rightarrow> nat option" where
  "number [] = Some 0"
| "number (c # cs) =
     (case (digit c, number cs) of
        (Some d, Some n) \<Rightarrow> Some (d * 10 ^ length cs + n)
      | other \<Rightarrow> None)"

definition parseDateTime :: "string \<Rightarrow> moment option" where
  "parseDateTime s =
     (if length s = 16 \<and> s ! 4 = CHR ''-'' \<and> s ! 7 = CHR ''-'' \<and> s ! 10 = CHR '' ''
         \<and> s ! 13 = CHR '':''
      then
        (case (number (take 4 s), number (take 2 (drop 5 s)), number (take 2 (drop 8 s)),
               number (take 2 (drop 11 s)), number (take 2 (drop 14 s))) of
           (Some y, Some mo, Some d, Some h, Some mi) \<Rightarrow>
             (if 1 \<le> mo \<and> mo \<le> 12 \<and> 1 \<le> d \<and> d \<le> daysInMonth (int y * 12 + int mo - 1)
                 \<and> h \<le> 23 \<and> mi \<le> 59
              then Some \<lparr>monthIndex = int y * 12 + int mo - 1, date = d, hour = h, minute = mi,
                         second = 0, millisecond = 0\<rparr>
              else None)
         | other \<Rightarrow> None)
      else None)"

text \<open>
  A text is falsy when it is \<^verbatim>\<open>null\<close> or empty. In a template string \<^verbatim>\<open>null\<close>
  prints as the word null.
\<close>

definition falsy :: "string option \<Rightarrow> bool" where
  "falsy s = (s = None \<or> s = Some [])"

definition scheduleText :: "string option \<Rightarrow> string option \<Rightarrow> string" where
  "scheduleText d t =
     (case d of None \<Rightarrow> ''null'' | Some x \<Rightarrow> x) @ '' '' @ (case t of None \<Rightarrow> ''null'' | Some x \<Rightarrow> x)"

section \<open>SchedulerService: the registry of timers\<close>

text \<open>
  A cron expression has the minute and the hour and, where the source writes no
  star, the day of the month, the month (from 1) and the day of the week.
\<close>

record cronExpression =
  cronMinute :: nat
  cronHour :: nat
  cronDayOfMonth :: "nat option"
  cronMonth :: "nat option"
  cronDayOfWeek :: "nat option"

text \<open>
  One entry of \<^verbatim>\<open>scheduledTasks\<close>. The task itself is the timer that runs
  \<^verbatim>\<open>executeAd(ad)\<close> on the campaign it was registered with (\<open>taskAd\<close>);
  \<open>nextExecution\<close> is held as a moment where the source holds its ISO text.
\<close>

record taskInfo =
  taskAd :: ad
  taskCron :: cronExpression
  nextExecution :: moment
  taskRepeat :: string

type_synonym tasks = "adId \<Rightarrow> taskInfo option"

definition cancelScheduledAd :: "tasks \<Rightarrow> adId \<Rightarrow> tasks" where
  "cancelScheduledAd ts i = ts(i := None)"

definition cronFor :: "string \<Rightarrow> moment \<Rightarrow> cronExpression" where
  "cronFor r m =
     (let mi = minute m; h = hour m; dom = date m; mon = nat (monthOf m + 1) in
      if r = ''daily'' then
        \<lparr>cronMinute = mi, cronHour = h, cronDayOfMonth = None, cronMonth = None, cronDayOfWeek = None\<rparr>
      else if r = ''weekly'' then
        \<lparr>cronMinute = mi, cronHour = h, cronDayOfMonth = None, cronMonth = None,
         cronDayOfWeek = Some (dayOfWeek m)\<rparr>
      else if r = ''monthly'' then
        \<lparr>cronMinute = mi, cronHour = h, cronDayOfMonth = Some dom, cronMonth = None,
         cronDayOfWeek = None\<rparr>
      else
        \<lparr>cronMinute = mi, cronHour = h, cronDayOfMonth = Some dom, cronMonth = Some mon,
         cronDayOfWeek = None\<rparr>)"

text \<open>
  \<^verbatim>\<open>scheduleAd(ad)\<close>. The whole body is inside a \<^verbatim>\<open>try\<close> whose handler only logs, and
  every path returns \<^verbatim>\<open>undefined\<close>: the three early returns (a date or time that is
  missing, a moment that is not valid, a moment before now) and the registration.
\<close>

definition scheduleAd ::
  "(string \<Rightarrow> moment option) \<Rightarrow> moment \<Rightarrow> tasks \<Rightarrow> ad \<Rightarrow> unit outcome \<times> tasks" where
  "scheduleAd parse now ts a =
     (if falsy (scheduleDate a) \<or> falsy (scheduleTime a) then (Returned (), ts)
      else
        (case parse (scheduleText (scheduleDate a) (scheduleTime a)) of
           None \<Rightarrow> (Returned (), ts)
         | Some m \<Rightarrow>
             (if isBefore m now then (Returned (), ts)
              else (Returned (),
                    (cancelScheduledAd ts (idOf a))(idOf a \<mapsto>
                       \<lparr>taskAd = a, taskCron = cronFor (repeat a) m, nextExecution = m,
                        taskRepeat = repeat a\<rparr>)))))"

text \<open>
  \<^verbatim>\<open>validateSchedule(scheduleDate, scheduleTime)\<close>; the three errors are the three
  texts of the source.
\<close>

datatype scheduleCheck = ScheduleValid | DateAndTimeRequired | InvalidDateTime | InThePast

definition validateSchedule ::
  "(string \<Rightarrow> moment option) \<Rightarrow> moment \<Rightarrow> string option \<Rightarrow> string option \<Rightarrow> scheduleCheck" where
  "validateSchedule parse now d t =
     (if falsy d \<or> falsy t then DateAndTimeRequired
      else
        (case parse (scheduleText d t) of
           None \<Rightarrow> InvalidDateTime
         | Some m \<Rightarrow> (if isBefore m now then InThePast else ScheduleValid)))"

section \<open>SchedulerService.getNextExecutionTime\<close>

text \<open>
  The loop \<^verbatim>\<open>while (nextExecution.isBefore(now)) nextExecution.add(1, unit)\<close>. It
  ends because every step moves the month count or the day of the month forward.
\<close>

definition progress :: "moment \<Rightarrow> int" where
  "progress m = monthIndex m * 32 + int (min (date m) 31)"

function advance :: "recurrence \<Rightarrow> moment \<Rightarrow> moment \<Rightarrow> moment" where
  "advance k now next = (if isBefore next now then advance k now (addOne k next) else next)"
  by pat_completeness auto

lemma daysInMonth_le: "daysInMonth mi \<le> 31"
  by (simp add: daysInMonth_def Let_def)

lemma progress_addDay: "progress m < progress (addDay m)"
proof (cases "daysInMonth (monthIndex m) < date m + 1")
  case True
  have "int (min (date m) 31) \<le> 31" by simp
  then show ?thesis using True by (simp add: progress_def addDay_def)
next
  case False
  then have "date m + 1 \<le> 31" using daysInMonth_le [of "monthIndex m"] by linarith
  then show ?thesis using False by (simp add: progress_def addDay_def)
qed

lemma progress_addDays: "0 < n \<Longrightarrow> progress m < progress ((addDay ^^ n) m)"
proof (induction n)
  case 0
  then show ?case by simp
next
  case (Suc n)
  show ?case
  proof (cases n)
    case 0
    then show ?thesis by (simp add: progress_addDay)
  next
    case (Suc k)
    then have "progress m < progress ((addDay ^^ n) m)" using Suc.IH by simp
    also have "\<dots> < progress (addDay ((addDay ^^ n) m))" by (rule progress_addDay)
    finally show ?thesis by simp
  qed
qed

lemma progress_addMonths: "0 < n \<Longrightarrow> progress m < progress (addMonths n m)"
proof -
  assume "0 < n"
  have "int (min (date m) 31) \<le> 31" by simp
  moreover have "0 \<le> int (min (min (date m) (daysInMonth (monthIndex m + n))) 31)" by simp
  moreover have "monthIndex m * 32 + 32 \<le> (monthIndex m + n) * 32" using \<open>0 < n\<close> by simp
  ultimately show ?thesis
    unfolding progress_def addMonths_def by simp
qed

lemma progress_addOne: "progress m < progress (addOne k m)"
  by (cases k) (simp_all add: progress_addDay progress_addDays progress_addMonths)

lemma isBefore_progress: "isBefore a b \<Longrightarrow> progress a \<le> progress b"
proof -
  assume "isBefore a b"
  then have le: "monthIndex a \<le> monthIndex b"
    and day: "monthIndex a < monthIndex b \<or> date a \<le> date b"
    by (auto simp add: isBefore_def)
  show ?thesis
  proof (cases "monthIndex a < monthIndex b")
    case True
    have "int (min (date a) 31) \<le> 31" by simp
    moreover have "0 \<le> int (min (date b) 31)" by simp
    moreover have "monthIndex a * 32 + 32 \<le> monthIndex b * 32" using True by simp
    ultimately show ?thesis unfolding progress_def by linarith
  next
    case False
    with le day have "monthIndex a = monthIndex b" "date a \<le> date b" by simp_all
    then show ?thesis by (simp add: progress_def)
  qed
qed

termination advance
proof (relation "measure (\<lambda>(k, now, next). nat (progress now - progress next + 1))", goal_cases)
  case 1
  show ?case by simp
next
  case (2 k now later)
  then have "progress later \<le> progress now" by (rule isBefore_progress)
  moreover have "progress later < progress (addOne k later)" by (rule progress_addOne)
  ultimately show ?case by simp
qed

declare advance.simps [simp del]

text \<open>
  \<^verbatim>\<open>getNextExecutionTime(adId)\<close>: \<^verbatim>\<open>null\<close> when the campaign has no timer, is not in
  the database or has no valid moment, and for a campaign that does not repeat when
  its moment is before now.
\<close>

definition recurrenceOf :: "string \<Rightarrow> recurrence option" where
  "recurrenceOf r =
     (if r = ''daily'' then Some Daily
      else if r = ''weekly'' then Some Weekly
      else if r = ''monthly'' then Some Monthly
      else if r = ''yearly'' then Some Yearly
      else None)"

definition getNextExecutionTime ::
  "(string \<Rightarrow> moment option) \<Rightarrow> moment \<Rightarrow> tasks \<Rightarrow> ad list \<Rightarrow> adId \<Rightarrow> moment option" where
  "getNextExecutionTime parse now ts db i =
     (case ts i of
        None \<Rightarrow> None
      | Some task \<Rightarrow>
          (case getAd db i of
             None \<Rightarrow> None
           | Some a \<Rightarrow>
               (case parse (scheduleText (scheduleDate a) (scheduleTime a)) of
                  None \<Rightarrow> None
                | Some m \<Rightarrow>
                    (case recurrenceOf (repeat a) of
                       Some k \<Rightarrow> Some (advance k now m)
                     | None \<Rightarrow> (if isBefore m now then None else Some m)))))"

section \<open>Four clock readings and a campaign of the past\<close>

text \<open>
  The last day of 2024 at 09:00, the first day of 2025 at 10:00 sharp and five
  seconds later, the second day of 2025 at 10:00 sharp; a campaign for one run on 2024-06-01; and the registry after the
  daily campaign of 2025-01-01 10:00 was registered on the last day of 2024.
\<close>

definition dayBefore :: moment where
  "dayBefore = \<lparr>monthIndex = 24299, date = 31, hour = 9, minute = 0, second = 0, millisecond = 0\<rparr>"

definition atTheAnchor :: moment where
  "atTheAnchor = \<lparr>monthIndex = 24300, date = 1, hour = 10, minute = 0, second = 0, millisecond = 0\<rparr>"

definition afterTheRun :: moment where
  "afterTheRun = \<lparr>monthIndex = 24300, date = 1, hour = 10, minute = 0, second = 5, millisecond = 0\<rparr>"

definition nextMorning :: moment where
  "nextMorning = \<lparr>monthIndex = 24300, date = 2, hour = 10, minute = 0, second = 0, millisecond = 0\<rparr>"

definition juneFirst :: moment where
  "juneFirst = \<lparr>monthIndex = 24293, date = 1, hour = 10, minute = 0, second = 0, millisecond = 0\<rparr>"

definition pastAd :: ad where
  "pastAd = exampleAd\<lparr>idOf := ''ad2'', scheduleDate := Some ''2024-06-01'', repeat := ''once''\<rparr>"

definition registered :: tasks where
  "registered = snd (scheduleAd parseDateTime dayBefore (\<lambda>i. None) exampleAd)"

section \<open>WhatsAppService: connecting and disconnecting\<close>

text \<open>
  The status codes \<^verbatim>\<open>DisconnectReason.loggedOut\<close> and
  \<^verbatim>\<open>DisconnectReason.forbidden\<close> of the socket library.
\<close>

definition loggedOut :: nat where
  "loggedOut = 401"

definition forbidden :: nat where
  "forbidden = 403"

text \<open>
  \<^verbatim>\<open>connectUser(userId)\<close> of src/services/whatsappService.js: nothing happens when the
  user has an entry that is connected; otherwise a new socket is made and entered with
  \<^verbatim>\<open>connected: false\<close>. The pairing code it waits for and returns is not modelled, nor
  is a failure of the library to make the socket.
\<close>

definition connectUser :: "server \<Rightarrow> userId \<Rightarrow> server" where
  "connectUser st u =
     (case connections st u of
        Some c \<Rightarrow>
          (if connected c then st
           else st\<lparr>connections := (connections st)(u \<mapsto>
                       \<lparr>sock = nextSock st, connected = False, readyState = 0\<rparr>),
                   nextSock := nextSock st + 1\<rparr>)
      | None \<Rightarrow>
          st\<lparr>connections := (connections st)(u \<mapsto>
                  \<lparr>sock = nextSock st, connected = False, readyState = 0\<rparr>),
              nextSock := nextSock st + 1\<rparr>)"

text \<open>
  The handler of \<^verbatim>\<open>connection.update\<close> that \<^verbatim>\<open>connectUser\<close> registers on the socket
  \<open>s\<close> of user \<open>u\<close>, for the updates \<^verbatim>\<open>open\<close> and \<^verbatim>\<open>close\<close>. On \<^verbatim>\<open>close\<close> the
  status code of \<^verbatim>\<open>lastDisconnect\<close> (\<open>None\<close> when there is none) decides whether a
  reconnection is scheduled.
\<close>

definition onOpen :: "server \<Rightarrow> userId \<Rightarrow> nat \<Rightarrow> server" where
  "onOpen st u s =
     st\<lparr>connections := (connections st)(u \<mapsto> \<lparr>sock = s, connected = True, readyState = 1\<rparr>),
        qrCodes := (qrCodes st)(u := None)\<rparr>"

definition shouldReconnect :: "nat option \<Rightarrow> bool" where
  "shouldReconnect statusCode = (statusCode \<noteq> Some loggedOut \<and> statusCode \<noteq> Some forbidden)"

definition onClose :: "server \<Rightarrow> userId \<Rightarrow> nat option \<Rightarrow> server" where
  "onClose st u statusCode =
     st\<lparr>connections := (connections st)(u := None),
        qrCodes := (qrCodes st)(u := None),
        reconnectTimers := (if shouldReconnect statusCode then reconnectTimers st @ [u]
                            else reconnectTimers st)\<rparr>"

text \<open>
  \<^verbatim>\<open>disconnectUser(userId)\<close>: with no entry nothing is done; with an entry
  \<^verbatim>\<open>sock.logout()\<close> is awaited and the entry deleted, unless the logout throws
  (\<open>logoutThrows\<close>), in which case the handler only logs. The close that the logout
  makes the socket report reaches \<open>onClose\<close> as an event of its own. The removal of
  the stored credentials is not modelled.
\<close>

definition disconnectUser :: "server \<Rightarrow> userId \<Rightarrow> bool \<Rightarrow> server" where
  "disconnectUser st u logoutThrows =
     (case connections st u of
        None \<Rightarrow> st
      | Some c \<Rightarrow>
          (if logoutThrows then st
           else st\<lparr>connections := (connections st)(u := None)\<rparr>))"

text \<open>The oldest pending timer fires: \<^verbatim>\<open>connectUser\<close> is called for its user.\<close>

definition timerFires :: "server \<Rightarrow> server" where
  "timerFires st =
     (case reconnectTimers st of
        [] \<Rightarrow> st
      | u # rest \<Rightarrow> connectUser (st\<lparr>reconnectTimers := rest\<rparr>) u)"

text \<open>
  What happens to the service, one event at a time: a call of the interface, an
  update reported by a socket, or a timer firing.
\<close>

datatype event =
    ConnectCall userId
  | DisconnectCall userId bool
  | SocketOpen userId nat
  | SocketClose userId "nat option"
  | TimerFires

fun step :: "server \<Rightarrow> event \<Rightarrow> server" where
  "step st (ConnectCall u) = connectUser st u"
| "step st (DisconnectCall u logoutThrows) = disconnectUser st u logoutThrows"
| "step st (SocketOpen u s) = onOpen st u s"
| "step st (SocketClose u statusCode) = onClose st u statusCode"
| "step st TimerFires = timerFires st"

definition run :: "server \<Rightarrow> event list \<Rightarrow> server" where
  "run st evs = foldl step st evs"

section \<open>Facts about the rate guard\<close>



lemma updateAntiSpamStats_keeps:
  "settings (snd (updateAntiSpamStats st u now)) = settings st"
  "userActivity (snd (updateAntiSpamStats st u now)) = userActivity st"
  "blockedUsers (snd (updateAntiSpamStats st u now)) = blockedUsers st"
  by (simp_all add: updateAntiSpamStats_def updateUserStats_antiSpam_def Let_def
        split: antiSpamField.splits option.splits)

lemma blockUser_keeps:
  "settings (snd (blockUser st u m now)) = settings st"
  "userActivity (snd (blockUser st u m now)) = userActivity st"
  "blockedUsers (snd (blockUser st u m now)) =
     (blockedUsers st)(u \<mapsto> \<lparr>blockedAt = now, unblockTime = now + m * 60000\<rparr>)"
  by (simp_all add: blockUser_def updateAntiSpamStats_keeps)

lemma blockUser_eqD:
  "blockUser st u m now = (r, st') \<Longrightarrow>
     settings st' = settings st \<and> userActivity st' = userActivity st \<and>
     blockedUsers st' = (blockedUsers st)(u \<mapsto> \<lparr>blockedAt = now, unblockTime = now + m * 60000\<rparr>)"
  using blockUser_keeps [of st u m now] by simp



















section \<open>Runs of honoured sends and sweeps\<close>



















section \<open>The example runs\<close>



















section \<open>The anti-spam switch\<close>

text \<open>
  C10. With \<^verbatim>\<open>enabled\<close> false, \<^verbatim>\<open>canSendMessage\<close> answers allowed and
  \<^verbatim>\<open>validateBroadcast\<close> answers valid for every user, group and instant, whatever the
  counters, windows and blocks hold (also when the user has a block that has not
  expired), and both leave the whole state as it was.
\<close>

theorem disabled_allows_everything:
  assumes "\<not> enabled (settings st)"
  shows "canSendMessage st u g now = (Returned Allowed, st)
         \<and> validateBroadcast st u gs now = (Valid, st)
         \<and> (\<forall>st'. settings st' = settings st \<longrightarrow>
               fst (canSendMessage st' u g now) = Returned Allowed
               \<and> fst (validateBroadcast st' u gs now) = Valid)"
  using assms by (simp add: canSendMessage_def validateBroadcast_def)

theorem disabled_allows_everything_witness:
  "(let st = (newService \<lparr>enabled = False, maxMessagesPerHour = 10, cooldownMinutes = 60\<rparr>)
               \<lparr>blockedUsers := [''u1'' \<mapsto> \<lparr>blockedAt = 0, unblockTime = 3600000\<rparr>]\<rparr>
    in \<not> enabled (settings st)
       \<and> fst (isUserBlocked st ''u1'' 1000)
       \<and> canSendMessage st ''u1'' ''g1'' 1000 = (Returned Allowed, st)
       \<and> validateBroadcast st ''u1'' [''g1'', ''g2''] 1000 = (Valid, st))"
proof -
  define st where "st = (newService \<lparr>enabled = False, maxMessagesPerHour = 10, cooldownMinutes = 60\<rparr>)
               \<lparr>blockedUsers := [''u1'' \<mapsto> \<lparr>blockedAt = 0, unblockTime = 3600000\<rparr>]\<rparr>"
  have off: "\<not> enabled (settings st)"
    by (simp add: st_def newService_def)
  have blocked: "fst (isUserBlocked st ''u1'' 1000)"
    by (simp add: st_def newService_def isUserBlocked_def)
  from disabled_allows_everything [OF off, of "''u1''" "''g1''" 1000 "[''g1'', ''g2'']"] off blocked
  show ?thesis
    unfolding Let_def st_def [symmetric] by blast
qed

section \<open>Blocks and their expiry\<close>

lemma canSend_blocked:
  assumes en: "enabled (settings st)" and b: "blockedUsers st u = Some b" and t: "t \<le> unblockTime b"
  shows "canSendMessage st u g t = (Returned (Denied_blocked (unblockTime b) (getTimeUntilUnblock st u t)), st)"
  using assms by (simp add: canSendMessage_def isUserBlocked_def)

lemma canSend_expired:
  assumes en: "enabled (settings st)" and b: "blockedUsers st u = Some b" and t: "unblockTime b < t"
  shows "(\<forall>ub tl. fst (canSendMessage st u g t) \<noteq> Returned (Denied_blocked ub tl))"
    and "blockedUsers (snd (canSendMessage st u g t)) u = None \<or>
         blockedUsers (snd (canSendMessage st u g t)) u =
            Some \<lparr>blockedAt = t, unblockTime = t + cooldownMinutes (settings st) * 60000\<rparr>"
    and "(fst (canSendMessage st u g t) = Returned Allowed) =
         (count (getUserActivity st u t) < maxMessagesPerHour (settings st)
           \<and> \<not> (g \<in> activity.groups (getUserActivity st u t) \<and> 0 < count (getUserActivity st u t)
                 \<and> recentlyStarted (getUserActivity st u t) t))"
    and "fst (canSendMessage st u g t) = Returned Allowed \<longrightarrow> blockedUsers (snd (canSendMessage st u g t)) u = None"
  using assms
  by (auto simp add: canSendMessage_def isUserBlocked_def Let_def getUserActivity_def emptyActivity_def recentlyStarted_def
      split: option.splits prod.splits outcome.splits dest!: blockUser_eqD)

lemma timeLeft_after_block:
  assumes "blockedUsers st u = Some \<lparr>blockedAt = t0, unblockTime = t0 + m * 60000\<rparr>" "0 < m"
  shows "getTimeUntilUnblock st u t0 = (if m < 60 then Minutos m else HorasMinutos (m div 60) (m mod 60))"
  using assms by (simp add: getTimeUntilUnblock_def diffMinutes_def Let_def)

text \<open>
  C7, as amended. With anti-spam enabled, \<^verbatim>\<open>blockUser(u, m)\<close> at \<open>t0\<close> stores a
  record that unblocks at \<open>t0 + m\<close> minutes; every \<^verbatim>\<open>canSendMessage\<close> up to and
  including that instant is denied with reason blocked, carrying the unblock time and
  the time left, and changes nothing. The first \<^verbatim>\<open>canSendMessage\<close> after that
  instant removes the record itself, with no call of \<^verbatim>\<open>unblockUser\<close>, and is not
  denied as blocked any more: it is allowed exactly when the count of the current hour
  is below the ceiling and the duplicate-group rule does not apply, and then no block
  record is left; otherwise the only record that can be there is a new one made by
  that very call.
\<close>

theorem block_expires_lazily:
  assumes "enabled (settings st)"
  shows "(let st1 = snd (blockUser st u m t0); unb = t0 + m * 60000 in
     blockedUsers st1 u = Some \<lparr>blockedAt = t0, unblockTime = unb\<rparr>
     \<and> (0 < m \<longrightarrow> getTimeUntilUnblock st1 u t0 =
            (if m < 60 then Minutos m else HorasMinutos (m div 60) (m mod 60)))
     \<and> (\<forall>t g. t \<le> unb \<longrightarrow>
           canSendMessage st1 u g t =
             (Returned (Denied_blocked unb (getTimeUntilUnblock st1 u t)), st1))
     \<and> (\<forall>t g. unb < t \<longrightarrow>
           (\<forall>ub tl. fst (canSendMessage st1 u g t) \<noteq> Returned (Denied_blocked ub tl))
           \<and> (blockedUsers (snd (canSendMessage st1 u g t)) u = None
               \<or> blockedUsers (snd (canSendMessage st1 u g t)) u =
                   Some \<lparr>blockedAt = t, unblockTime = t + cooldownMinutes (settings st) * 60000\<rparr>)
           \<and> ((fst (canSendMessage st1 u g t) = Returned Allowed) =
                (count (getUserActivity st1 u t) < maxMessagesPerHour (settings st)
                 \<and> \<not> (g \<in> activity.groups (getUserActivity st1 u t)
                       \<and> 0 < count (getUserActivity st1 u t)
                       \<and> recentlyStarted (getUserActivity st1 u t) t)))
           \<and> (fst (canSendMessage st1 u g t) = Returned Allowed \<longrightarrow>
                blockedUsers (snd (canSendMessage st1 u g t)) u = None)))"
proof -
  define st1 where "st1 = snd (blockUser st u m t0)"
  define b where "b = \<lparr>blockedAt = t0, unblockTime = t0 + m * 60000\<rparr>"
  have en1: "enabled (settings st1)" and cfg: "settings st1 = settings st"
    using assms by (simp_all add: st1_def blockUser_keeps)
  have blk: "blockedUsers st1 u = Some b"
    by (simp add: st1_def b_def blockUser_keeps)
  have ub: "unblockTime b = t0 + m * 60000"
    by (simp add: b_def)
  have left: "0 < m \<longrightarrow> getTimeUntilUnblock st1 u t0 =
            (if m < 60 then Minutos m else HorasMinutos (m div 60) (m mod 60))"
    using timeLeft_after_block [of st1 u t0 m] blk by (simp add: b_def)
  have early: "canSendMessage st1 u g t =
             (Returned (Denied_blocked (t0 + m * 60000) (getTimeUntilUnblock st1 u t)), st1)"
    if "t \<le> t0 + m * 60000" for t g
    using canSend_blocked [OF en1 blk, of t g] that ub by simp
  have late: "(\<forall>ub tl. fst (canSendMessage st1 u g t) \<noteq> Returned (Denied_blocked ub tl))
           \<and> (blockedUsers (snd (canSendMessage st1 u g t)) u = None
               \<or> blockedUsers (snd (canSendMessage st1 u g t)) u =
                   Some \<lparr>blockedAt = t, unblockTime = t + cooldownMinutes (settings st) * 60000\<rparr>)
           \<and> ((fst (canSendMessage st1 u g t) = Returned Allowed) =
                (count (getUserActivity st1 u t) < maxMessagesPerHour (settings st)
                 \<and> \<not> (g \<in> activity.groups (getUserActivity st1 u t)
                       \<and> 0 < count (getUserActivity st1 u t)
                       \<and> recentlyStarted (getUserActivity st1 u t) t)))
           \<and> (fst (canSendMessage st1 u g t) = Returned Allowed \<longrightarrow>
                blockedUsers (snd (canSendMessage st1 u g t)) u = None)"
    if "t0 + m * 60000 < t" for t g
  proof -
    have exp: "unblockTime b < t" using that ub by simp
    show ?thesis
      using canSend_expired [OF en1 blk exp, of g] by (simp only: cfg) blast
  qed
  show ?thesis
    unfolding Let_def st1_def [symmetric]
    using blk left early late by (simp add: b_def)
qed

theorem block_expires_lazily_witness:
  "(let st1 = snd (blockUser (newService \<lparr>enabled = True, maxMessagesPerHour = 10, cooldownMinutes = 60\<rparr>) ''u1'' 60 0) in
      enabled (settings (newService \<lparr>enabled = True, maxMessagesPerHour = 10, cooldownMinutes = 60\<rparr>))
      \<and> canSendMessage st1 ''u1'' ''g1'' 0 = (Returned (Denied_blocked 3600000 (HorasMinutos 1 0)), st1)
      \<and> fst (canSendMessage st1 ''u1'' ''g1'' 3600001) = Returned Allowed
      \<and> blockedUsers (snd (canSendMessage st1 ''u1'' ''g1'' 3600001)) ''u1'' = None)"
proof -
  define st where "st = newService \<lparr>enabled = True, maxMessagesPerHour = 10, cooldownMinutes = 60\<rparr>"
  define st1 where "st1 = snd (blockUser st ''u1'' 60 0)"
  have en: "enabled (settings st)" by (simp add: st_def newService_def)
  have act: "userActivity st1 = (\<lambda>k. None)"
    by (simp add: st1_def blockUser_keeps) (simp add: st_def newService_def)
  have cnt: "count (getUserActivity st1 ''u1'' 3600001) = 0" "activity.groups (getUserActivity st1 ''u1'' 3600001) = {}"
    by (simp_all add: getUserActivity_def act)
  have mx: "maxMessagesPerHour (settings st) = 10" by (simp add: st_def newService_def)
  from block_expires_lazily [OF en, of "''u1''" 60 0]
  show ?thesis
    unfolding Let_def st_def [symmetric] st1_def [symmetric]
    using en cnt mx by auto
qed

text \<open>
  The claim as it was stated fails: a block of one minute is set at 0, a send to group
  g1 is recorded at 1000, and at 60001, after the unblock time 60000, the check for g1
  is not allowed but denied as a duplicate group, the expired record being removed.
\<close>

theorem unblocked_not_always_allowed:
  "(let s0 = newService \<lparr>enabled = True, maxMessagesPerHour = 10, cooldownMinutes = 60\<rparr>;
        s1 = snd (blockUser s0 ''u1'' 1 0);
        s2 = snd (recordMessageSent s1 ''u1'' ''g1'' True 1000)
    in fst (blockUser s0 ''u1'' 1 0) = Returned ()
       \<and> blockedUsers s2 ''u1'' = Some \<lparr>blockedAt = 0, unblockTime = 60000\<rparr>
       \<and> fst (canSendMessage s2 ''u1'' ''g1'' 1000) = Returned (Denied_blocked 60000 Agora)
       \<and> fst (canSendMessage s2 ''u1'' ''g1'' 60001) = Returned Denied_duplicate_group
       \<and> blockedUsers (snd (canSendMessage s2 ''u1'' ''g1'' 60001)) ''u1'' = None)"
  by (simp add: newService_def blockUser_def updateAntiSpamStats_def updateUserStats_antiSpam_def
        getUserStats_def defaultUserStats_def recordMessageSent_def canSendMessage_def isUserBlocked_def
        getTimeUntilUnblock_def diffMinutes_def startOfHour_def freshActivity_def recentlyStarted_def
        objectText_def Let_def)


section \<open>The hourly ceiling\<close>




section \<open>Facts about the broadcast loop and the campaign statistics\<close>

lemma attemptsOf_Nil: "attemptsOf w i [] = []"
  by (simp add: attemptsOf_def)

lemma attemptsOf_Cons: "attemptsOf w i (g # gs) = (g, w i) # attemptsOf w (Suc i) gs"
  by (simp add: attemptsOf_def upt_conv_Cons del: upt_Suc)

lemma accounted_Nil: "accounted res [] = res"
  by (simp add: accounted_def)

lemma accounted_Cons_returned:
  "accounted res ((g, Returned r) # outs) = accounted (tally res g r) outs"
  by (simp add: accounted_def tally_def succeeded_def errorOf_def)

lemma accounted_Cons_threw:
  "accounted res ((g, Threw e) # outs) =
     accounted (res\<lparr>failed := failed res + 1, errorList := errorList res @ [(g, Some e)]\<rparr>) outs"
  by (simp add: accounted_def succeeded_def errorOf_def)

lemma broadcastLoop_total:
  "broadcastLoop u a w i gs res = (Returned r, called) \<Longrightarrow>
     sent r + failed r = sent res + failed res + length gs \<and> totalCount r = totalCount res"
proof (induction gs arbitrary: i res called)
  case Nil
  then show ?case by simp
next
  case (Cons g gs)
  from Cons.prems obtain x called' where
    s: "sendAd u a g (w i) = Returned x" and
    l: "broadcastLoop u a w (Suc i) gs (tally res g x) = (Returned r, called')"
    by (auto split: outcome.splits prod.splits)
  from Cons.IH [OF l] show ?case
    by (auto simp add: tally_def split: if_splits)
qed

lemma broadcastLoop_part003_total:
  "\<exists>r. broadcastLoop_part003 u a w i gs res = (Returned r, gs) \<and>
     sent r + failed r = sent res + failed res + length gs \<and> totalCount r = totalCount res"
proof (induction gs arbitrary: i res)
  case Nil
  then show ?case by simp
next
  case (Cons g gs)
  define res' where "res' = (case sendAd_part003 u a g (w i) of
                Returned r \<Rightarrow> tally res g r
              | Threw e \<Rightarrow> res\<lparr>failed := failed res + 1, errorList := errorList res @ [(g, Some e)]\<rparr>)"
  have step: "sent res' + failed res' = sent res + failed res + 1 \<and> totalCount res' = totalCount res"
    by (simp add: res'_def tally_def split: outcome.splits)
  from Cons.IH [of "Suc i" res'] obtain r where
    "broadcastLoop_part003 u a w (Suc i) gs res' = (Returned r, gs)"
    "sent r + failed r = sent res' + failed res' + length gs" "totalCount r = totalCount res'"
    by blast
  with step show ?case
    by (simp add: res'_def [symmetric])
qed

lemma broadcastLoop_all:
  assumes "\<forall>(g, e) \<in> set (attemptsOf w i gs). returns (sendAd u a g e)"
  shows "broadcastLoop u a w i gs res =
           (Returned (accounted res (map (\<lambda>(g, e). (g, sendAd u a g e)) (attemptsOf w i gs))), gs)"
  using assms
proof (induction gs arbitrary: i res)
  case Nil
  then show ?case by (simp add: attemptsOf_Nil accounted_Nil)
next
  case (Cons g gs)
  from Cons.prems obtain x where s: "sendAd u a g (w i) = Returned x"
    by (auto simp add: attemptsOf_Cons returns_def split: outcome.splits)
  from Cons.prems have rest: "\<forall>(g, e) \<in> set (attemptsOf w (Suc i) gs). returns (sendAd u a g e)"
    by (simp add: attemptsOf_Cons)
  show ?case
    by (simp add: s Cons.IH [OF rest] attemptsOf_Cons accounted_Cons_returned)
qed

lemma broadcastLoop_part003_all:
  "broadcastLoop_part003 u a w i gs res =
     (Returned (accounted res (map (\<lambda>(g, e). (g, sendAd_part003 u a g e)) (attemptsOf w i gs))), gs)"
proof (induction gs arbitrary: i res)
  case Nil
  then show ?case by (simp add: attemptsOf_Nil accounted_Nil)
next
  case (Cons g gs)
  show ?case
    by (cases "sendAd_part003 u a g (w i)")
       (simp_all add: Cons.IH attemptsOf_Cons accounted_Cons_returned accounted_Cons_threw)
qed

lemma broadcastLoop_prefix:
  "\<exists>k \<le> length gs. snd (broadcastLoop u a w i gs res) = take k gs"
proof (induction gs arbitrary: i res)
  case Nil
  then show ?case by simp
next
  case (Cons g gs)
  show ?case
  proof (cases "sendAd u a g (w i)")
    case (Threw e)
    then have "snd (broadcastLoop u a w i (g # gs) res) = take 1 (g # gs)" by simp
    then show ?thesis by (metis One_nat_def Suc_leI length_Cons zero_less_Suc)
  next
    case (Returned x)
    from Cons.IH [of "Suc i" "tally res g x"] obtain k where
      k: "k \<le> length gs" "snd (broadcastLoop u a w (Suc i) gs (tally res g x)) = take k gs" by blast
    then have "snd (broadcastLoop u a w i (g # gs) res) = take (Suc k) (g # gs)"
      using Returned by (simp add: split_beta)
    with k(1) show ?thesis by (metis Suc_le_mono length_Cons)
  qed
qed


lemma exampleAttempts:
  "attemptsOf w 0 [''g1'', ''g2'', ''g3''] =
     [(''g1'', w 0), (''g2'', w (Suc 0)), (''g3'', w (Suc (Suc 0)))]"
  by (simp add: attemptsOf_def upt_conv_Cons del: upt_Suc)

lemma example_connected: "isUserConnected onlineServer ''u1''"
  by (simp add: isUserConnected_def onlineServer_def)

lemma example_not_connected: "\<not> isUserConnected offlineServer ''u1''"
  by (simp add: isUserConnected_def offlineServer_def)

lemma example_secondRefused:
  "broadcastAd onlineServer ''u1'' exampleAd secondRefused =
     (Returned \<lparr>totalCount = 3, sent = 2, failed = 1,
                errorList = [(''g2'', Some (OtherError ''not-authorized''))]\<rparr>,
      [''g1'', ''g2'', ''g3''])"
  by (simp add: broadcastAd_def example_connected exampleAd_def sendAd_def secondRefused_def
        allDelivered_def hasImage_def sendMessage_def tally_def)

lemma returns_sendAd:
  "returns (sendAd u a g e) =
     (hasConnection e \<and> stillConnected e \<and> \<not> (hasImage a e \<and> sharpError e \<noteq> None))"
  by (auto simp add: returns_def sendAd_def split: option.splits)

lemma getAd_replaceStats:
  "getAd (replaceStats as i s) i =
     map_option (\<lambda>a. a\<lparr>adStats := Some (mergeStats (adStats a) s)\<rparr>) (getAd as i)"
  by (induction as) (simp_all add: getAd_def)

lemma updateAdStats_connections: "connections (updateAdStats st i s now) = connections st"
  by (simp add: updateAdStats_def split: option.splits)

lemma updateUserStats_messages_keeps:
  "settings (updateUserStats_messages r u x y now) = settings r"
  "userActivity (updateUserStats_messages r u x y now) = userActivity r"
  "blockedUsers (updateUserStats_messages r u x y now) = blockedUsers r"
  "antiSpam (getUserStats (updateUserStats_messages r u x y now) v) = antiSpam (getUserStats r v)"
  by (simp_all add: updateUserStats_messages_def getUserStats_def Let_def defaultUserStats_def
        split: option.splits)

lemma updateAdStats_rate:
  "settings (rate (updateAdStats st i s now)) = settings (rate st)"
  "userActivity (rate (updateAdStats st i s now)) = userActivity (rate st)"
  "blockedUsers (rate (updateAdStats st i s now)) = blockedUsers (rate st)"
  "antiSpam (getUserStats (rate (updateAdStats st i s now)) v) = antiSpam (getUserStats (rate st) v)"
  by (simp_all add: updateAdStats_def updateUserStats_messages_keeps split: option.splits)

lemma updateAdStats_getAd:
  "getAd (ads st) i = Some stored \<Longrightarrow>
     getAd (ads (updateAdStats st i s now)) i = Some (stored\<lparr>adStats := Some (mergeStats (adStats stored) s)\<rparr>)"
  by (simp add: updateAdStats_def getAd_replaceStats)

lemma executeAd_state_cases:
  "\<exists>s. fst (snd (executeAd st a w now)) = updateAdStats st (idOf a) s now"
  by (auto simp add: executeAd_def split: prod.splits outcome.splits)

section \<open>The accounts of a broadcast\<close>

text \<open>
  C5. Whenever \<^verbatim>\<open>broadcastAd\<close> returns a result object, in
  src/services/whatsappService.js as in src/unnamed/part_003, \<open>sent\<close> plus
  \<open>failed\<close> equals \<open>total\<close>, and \<open>total\<close> is the number of groups the campaign
  lists; in part_003 every broadcast that is not rejected at the start (the user is
  connected) returns such an object.
\<close>

theorem results_add_up:
  "(broadcastAd st u a w = (Returned r, called) \<longrightarrow>
      sent r + failed r = totalCount r \<and> totalCount r = length (groups a))
   \<and> (broadcastAd_part003 st u a w = (Returned r', called') \<longrightarrow>
      sent r' + failed r' = totalCount r' \<and> totalCount r' = length (groups a))
   \<and> (isUserConnected st u \<longrightarrow> (\<exists>x. fst (broadcastAd_part003 st u a w) = Returned x))"
proof (intro conjI impI)
  assume b: "broadcastAd st u a w = (Returned r, called)"
  then have "broadcastLoop u a w 0 (groups a)
             \<lparr>totalCount = length (groups a), sent = 0, failed = 0, errorList = []\<rparr> = (Returned r, called)"
    by (simp add: broadcastAd_def split: if_splits)
  from broadcastLoop_total [OF this]
  show "sent r + failed r = totalCount r" and "totalCount r = length (groups a)" by simp_all
next
  assume b: "broadcastAd_part003 st u a w = (Returned r', called')"
  then have l: "broadcastLoop_part003 u a w 0 (groups a)
             \<lparr>totalCount = length (groups a), sent = 0, failed = 0, errorList = []\<rparr> = (Returned r', called')"
    by (simp add: broadcastAd_part003_def split: if_splits)
  from broadcastLoop_part003_total [of u a w 0 "groups a"
         "\<lparr>totalCount = length (groups a), sent = 0, failed = 0, errorList = []\<rparr>"] l
  show "sent r' + failed r' = totalCount r'" and "totalCount r' = length (groups a)" by auto
next
  assume "isUserConnected st u"
  then show "\<exists>x. fst (broadcastAd_part003 st u a w) = Returned x"
    using broadcastLoop_part003_total [of u a w 0 "groups a"
         "\<lparr>totalCount = length (groups a), sent = 0, failed = 0, errorList = []\<rparr>"]
    by (auto simp add: broadcastAd_part003_def)
qed

theorem results_add_up_witness:
  "broadcastAd onlineServer ''u1'' exampleAd secondRefused =
     (Returned \<lparr>totalCount = 3, sent = 2, failed = 1,
                errorList = [(''g2'', Some (OtherError ''not-authorized''))]\<rparr>,
      [''g1'', ''g2'', ''g3''])
   \<and> (2::nat) + 1 = 3 \<and> length (groups exampleAd) = 3"
  using results_add_up [of onlineServer "''u1''" exampleAd secondRefused
      "\<lparr>totalCount = 3, sent = 2, failed = 1,
        errorList = [(''g2'', Some (OtherError ''not-authorized''))]\<rparr>" "[''g1'', ''g2'', ''g3'']"]
    example_secondRefused
  by simp

section \<open>One attempt per group\<close>

text \<open>
  C8, as amended. A broadcast starts with the user connected. In
  src/services/whatsappService.js, as long as no call of \<^verbatim>\<open>sendAd\<close> throws (the
  connection is still there at each call, and the image, if any, is processed), there
  is exactly one call per listed group, in the listed order, and each attempt is
  counted on its own: a send that the platform refuses adds to \<open>failed\<close> and to the
  error list and the run goes on. Whatever happens, the groups attempted are an
  initial part of the list. In src/unnamed/part_003 every group is attempted once, in
  order, in every course of events, and each attempt is counted on its own.
\<close>

theorem one_attempt_per_group:
  assumes "isUserConnected st u"
  shows "((\<forall>(g, e) \<in> set (attemptsOf w 0 (groups a)). returns (sendAd u a g e)) \<longrightarrow>
            broadcastAd st u a w =
              (Returned (accounted \<lparr>totalCount = length (groups a), sent = 0, failed = 0, errorList = []\<rparr>
                           (map (\<lambda>(g, e). (g, sendAd u a g e)) (attemptsOf w 0 (groups a)))),
               groups a))
         \<and> (\<forall>g e. returns (sendAd u a g e) =
               (hasConnection e \<and> stillConnected e \<and> \<not> (hasImage a e \<and> sharpError e \<noteq> None)))
         \<and> (\<exists>k \<le> length (groups a). snd (broadcastAd st u a w) = take k (groups a))
         \<and> broadcastAd_part003 st u a w =
              (Returned (accounted \<lparr>totalCount = length (groups a), sent = 0, failed = 0, errorList = []\<rparr>
                           (map (\<lambda>(g, e). (g, sendAd_part003 u a g e)) (attemptsOf w 0 (groups a)))),
               groups a)"
proof (intro conjI impI allI)
  assume "\<forall>(g, e) \<in> set (attemptsOf w 0 (groups a)). returns (sendAd u a g e)"
  from broadcastLoop_all [OF this]
  show "broadcastAd st u a w =
              (Returned (accounted \<lparr>totalCount = length (groups a), sent = 0, failed = 0, errorList = []\<rparr>
                           (map (\<lambda>(g, e). (g, sendAd u a g e)) (attemptsOf w 0 (groups a)))),
               groups a)"
    using assms by (simp add: broadcastAd_def)
next
  fix g e
  show "returns (sendAd u a g e) =
     (hasConnection e \<and> stillConnected e \<and> \<not> (hasImage a e \<and> sharpError e \<noteq> None))"
    by (rule returns_sendAd)
next
  show "\<exists>k \<le> length (groups a). snd (broadcastAd st u a w) = take k (groups a)"
    using assms broadcastLoop_prefix [of "groups a" u a w 0] by (simp add: broadcastAd_def)
next
  show "broadcastAd_part003 st u a w =
              (Returned (accounted \<lparr>totalCount = length (groups a), sent = 0, failed = 0, errorList = []\<rparr>
                           (map (\<lambda>(g, e). (g, sendAd_part003 u a g e)) (attemptsOf w 0 (groups a)))),
               groups a)"
    using assms by (simp add: broadcastAd_part003_def broadcastLoop_part003_all)
qed

theorem one_attempt_per_group_witness:
  "isUserConnected onlineServer ''u1''
   \<and> broadcastAd onlineServer ''u1'' exampleAd secondRefused =
       (Returned \<lparr>totalCount = 3, sent = 2, failed = 1,
                  errorList = [(''g2'', Some (OtherError ''not-authorized''))]\<rparr>,
        [''g1'', ''g2'', ''g3''])
   \<and> broadcastAd_part003 onlineServer ''u1'' exampleAd secondOffline =
       (Returned \<lparr>totalCount = 3, sent = 2, failed = 1,
                  errorList = [(''g2'', Some NotConnected)]\<rparr>,
        [''g1'', ''g2'', ''g3''])"
proof -
  have all: "\<forall>(g, e) \<in> set (attemptsOf secondRefused 0 (groups exampleAd)).
               returns (sendAd ''u1'' exampleAd g e)"
    by (simp add: exampleAd_def exampleAttempts returns_sendAd secondRefused_def allDelivered_def hasImage_def)
  have gs: "groups exampleAd = [''g1'', ''g2'', ''g3'']" by (simp add: exampleAd_def)
  have v1: "accounted \<lparr>totalCount = length (groups exampleAd), sent = 0, failed = 0, errorList = []\<rparr>
              (map (\<lambda>(g, e). (g, sendAd ''u1'' exampleAd g e)) (attemptsOf secondRefused 0 (groups exampleAd)))
            = \<lparr>totalCount = 3, sent = 2, failed = 1,
                  errorList = [(''g2'', Some (OtherError ''not-authorized''))]\<rparr>"
    by (simp add: gs exampleAttempts accounted_def sendAd_def secondRefused_def allDelivered_def
          succeeded_def errorOf_def sendMessage_def hasImage_def exampleAd_def)
  have v2: "accounted \<lparr>totalCount = length (groups exampleAd), sent = 0, failed = 0, errorList = []\<rparr>
              (map (\<lambda>(g, e). (g, sendAd_part003 ''u1'' exampleAd g e)) (attemptsOf secondOffline 0 (groups exampleAd)))
            = \<lparr>totalCount = 3, sent = 2, failed = 1,
                  errorList = [(''g2'', Some NotConnected)]\<rparr>"
    by (simp add: gs exampleAttempts accounted_def sendAd_part003_def secondOffline_def allDelivered_def
          succeeded_def errorOf_def sendMessage_def hasImage_def exampleAd_def)
  from one_attempt_per_group [OF example_connected, of secondRefused exampleAd]
  have a: "broadcastAd onlineServer ''u1'' exampleAd secondRefused =
       (Returned \<lparr>totalCount = 3, sent = 2, failed = 1,
                  errorList = [(''g2'', Some (OtherError ''not-authorized''))]\<rparr>,
        [''g1'', ''g2'', ''g3''])"
    using all v1 gs by simp
  from one_attempt_per_group [OF example_connected, of secondOffline exampleAd]
  have b: "broadcastAd_part003 onlineServer ''u1'' exampleAd secondOffline =
       (Returned \<lparr>totalCount = 3, sent = 2, failed = 1,
                  errorList = [(''g2'', Some NotConnected)]\<rparr>,
        [''g1'', ''g2'', ''g3''])"
    using v2 gs by simp
  from a b example_connected show ?thesis by simp
qed

text \<open>
  The claim as it was stated fails for src/services/whatsappService.js: the user is
  connected at the start, the connection is gone when the second of three groups is
  due, \<^verbatim>\<open>sendAd\<close> throws, and the third group is never attempted.
\<close>

theorem lost_session_stops_the_run:
  "isUserConnected onlineServer ''u1''
   \<and> groups exampleAd = [''g1'', ''g2'', ''g3'']
   \<and> broadcastAd onlineServer ''u1'' exampleAd secondOffline = (Threw NotConnected, [''g1'', ''g2''])"
  by (simp add: broadcastAd_def example_connected exampleAd_def sendAd_def secondOffline_def
        allDelivered_def hasImage_def sendMessage_def tally_def)

section \<open>A campaign whose user has no session\<close>

text \<open>
  C3, as amended. When the user of the campaign is not connected, \<^verbatim>\<open>broadcastAd\<close>
  throws the error "WhatsApp nao conectado" without calling \<^verbatim>\<open>sendAd\<close>. The
  scheduler's \<^verbatim>\<open>executeAd\<close> tests the connection first: it makes no send attempt,
  throws nothing and returns nothing, leaves the connections as they are, and in the
  stored campaign sets \<open>failed\<close> to the campaign's count of failures plus the number
  of its groups, leaves \<open>sent\<close> as stored and sets \<open>lastSent\<close> to now.
\<close>

theorem no_session_no_send:
  assumes "\<not> isUserConnected st (userId a)"
  shows "broadcastAd st (userId a) a w = (Threw NotConnected, [])
       \<and> broadcastAd_part003 st (userId a) a w = (Threw NotConnected, [])
       \<and> fst (executeAd st a w now) = Returned ()
       \<and> snd (snd (executeAd st a w now)) = []
       \<and> connections (fst (snd (executeAd st a w now))) = connections st
       \<and> (\<forall>stored. getAd (ads st) (idOf a) = Some stored \<longrightarrow>
            (\<exists>s. getAd (ads (fst (snd (executeAd st a w now)))) (idOf a) = Some (stored\<lparr>adStats := Some s\<rparr>)
                 \<and> failedCount s = Some (failedSoFar a + int (length (groups a)))
                 \<and> sentCount s = (case adStats stored of None \<Rightarrow> None | Some x \<Rightarrow> sentCount x)
                 \<and> lastSent s = Some now))"
proof (intro conjI allI impI)
  show "broadcastAd st (userId a) a w = (Threw NotConnected, [])"
    using assms by (simp add: broadcastAd_def)
  show "broadcastAd_part003 st (userId a) a w = (Threw NotConnected, [])"
    using assms by (simp add: broadcastAd_part003_def)
  show "fst (executeAd st a w now) = Returned ()"
    using assms by (simp add: executeAd_def)
  show "snd (snd (executeAd st a w now)) = []"
    using assms by (simp add: executeAd_def)
  show "connections (fst (snd (executeAd st a w now))) = connections st"
    using assms by (simp add: executeAd_def updateAdStats_connections)
next
  fix stored assume g: "getAd (ads st) (idOf a) = Some stored"
  define patch where "patch = \<lparr>sentCount = None,
      failedCount = Some (failedSoFar a + int (length (groups a))), lastSent = Some now\<rparr>"
  have e: "fst (snd (executeAd st a w now)) = updateAdStats st (idOf a) patch now"
    using assms by (simp add: executeAd_def patch_def)
  have "getAd (ads (fst (snd (executeAd st a w now)))) (idOf a) =
          Some (stored\<lparr>adStats := Some (mergeStats (adStats stored) patch)\<rparr>)"
    unfolding e by (rule updateAdStats_getAd [OF g])
  moreover have "failedCount (mergeStats (adStats stored) patch) = Some (failedSoFar a + int (length (groups a)))"
    "sentCount (mergeStats (adStats stored) patch) = (case adStats stored of None \<Rightarrow> None | Some x \<Rightarrow> sentCount x)"
    "lastSent (mergeStats (adStats stored) patch) = Some now"
    by (simp_all add: mergeStats_def patch_def Let_def split: option.splits)
  ultimately show "\<exists>s. getAd (ads (fst (snd (executeAd st a w now)))) (idOf a) = Some (stored\<lparr>adStats := Some s\<rparr>)
                 \<and> failedCount s = Some (failedSoFar a + int (length (groups a)))
                 \<and> sentCount s = (case adStats stored of None \<Rightarrow> None | Some x \<Rightarrow> sentCount x)
                 \<and> lastSent s = Some now"
    by blast
qed

theorem no_session_no_send_witness:
  "\<not> isUserConnected offlineServer (userId exampleAd)
   \<and> broadcastAd offlineServer ''u1'' exampleAd allDelivered = (Threw NotConnected, [])
   \<and> fst (executeAd offlineServer exampleAd allDelivered 5000) = Returned ()
   \<and> snd (snd (executeAd offlineServer exampleAd allDelivered 5000)) = []
   \<and> getAd (ads (fst (snd (executeAd offlineServer exampleAd allDelivered 5000)))) ''ad1'' =
        Some (exampleAd\<lparr>adStats := Some \<lparr>sentCount = Some 4, failedCount = Some 4, lastSent = Some 5000\<rparr>\<rparr>)"
proof -
  have u: "userId exampleAd = ''u1''" and i: "idOf exampleAd = ''ad1''" by (simp_all add: exampleAd_def)
  have off: "\<not> isUserConnected offlineServer (userId exampleAd)"
    using example_not_connected by (simp add: u)
  have g: "getAd (ads offlineServer) (idOf exampleAd) = Some exampleAd"
    by (simp add: getAd_def offlineServer_def)
  have f: "failedSoFar exampleAd + int (length (groups exampleAd)) = 4"
    and s: "adStats exampleAd = Some \<lparr>sentCount = Some 4, failedCount = Some 1, lastSent = None\<rparr>"
    by (simp_all add: failedSoFar_def exampleAd_def)
  from no_session_no_send [OF off, of allDelivered 5000] g
  obtain x where x: "getAd (ads (fst (snd (executeAd offlineServer exampleAd allDelivered 5000)))) (idOf exampleAd)
                     = Some (exampleAd\<lparr>adStats := Some x\<rparr>)"
       "failedCount x = Some (failedSoFar exampleAd + int (length (groups exampleAd)))"
       "sentCount x = (case adStats exampleAd of None \<Rightarrow> None | Some y \<Rightarrow> sentCount y)"
       "lastSent x = Some 5000"
    by blast
  have "x = \<lparr>sentCount = Some 4, failedCount = Some 4, lastSent = Some 5000\<rparr>"
    using x(2-4) by (simp add: f s)
  with x(1) no_session_no_send [OF off, of allDelivered 5000] off
  show ?thesis by (simp add: u i)
qed

text \<open>
  The claim as it was stated fails: for a user without a session \<^verbatim>\<open>broadcastAd\<close>
  returns no result object at all, it throws.
\<close>

theorem no_session_throws:
  "\<not> isUserConnected offlineServer ''u1''
   \<and> broadcastAd offlineServer ''u1'' exampleAd allDelivered = (Threw NotConnected, [])
   \<and> broadcastAd_part003 offlineServer ''u1'' exampleAd allDelivered = (Threw NotConnected, [])"
  by (simp add: example_not_connected broadcastAd_def broadcastAd_part003_def)

section \<open>The dispatcher and the rate guard\<close>

text \<open>
  No run of the dispatcher reaches the rate guard. \<^verbatim>\<open>executeAd\<close> leaves the activity
  windows, the blocks, the anti-spam settings and the anti-spam statistics of every
  user exactly as they were: neither \<^verbatim>\<open>validateBroadcast\<close> nor
  \<^verbatim>\<open>recordMessageSent\<close> is called. The groups it attempts do not depend on the state
  of the rate guard; when the user is connected and no call of \<^verbatim>\<open>sendAd\<close> throws,
  they are all the groups of the campaign.
\<close>

theorem dispatch_leaves_rate_guard_aside:
  "userActivity (rate (fst (snd (executeAd st a w now)))) = userActivity (rate st)
   \<and> blockedUsers (rate (fst (snd (executeAd st a w now)))) = blockedUsers (rate st)
   \<and> settings (rate (fst (snd (executeAd st a w now)))) = settings (rate st)
   \<and> (\<forall>u. antiSpam (getUserStats (rate (fst (snd (executeAd st a w now)))) u)
            = antiSpam (getUserStats (rate st) u))
   \<and> (\<forall>r. snd (snd (executeAd (st\<lparr>rate := r\<rparr>) a w now)) = snd (snd (executeAd st a w now)))
   \<and> (isUserConnected st (userId a)
        \<and> (\<forall>(g, e) \<in> set (attemptsOf w 0 (groups a)). returns (sendAd (userId a) a g e))
       \<longrightarrow> snd (snd (executeAd st a w now)) = groups a)"
proof -
  obtain s where s: "fst (snd (executeAd st a w now)) = updateAdStats st (idOf a) s now"
    using executeAd_state_cases by blast
  have indep: "snd (snd (executeAd (st\<lparr>rate := r\<rparr>) a w now)) = snd (snd (executeAd st a w now))" for r
    by (simp add: executeAd_def isUserConnected_def broadcastAd_def split: prod.splits outcome.splits)
  have full: "snd (snd (executeAd st a w now)) = groups a"
    if "isUserConnected st (userId a)"
      and "\<forall>(g, e) \<in> set (attemptsOf w 0 (groups a)). returns (sendAd (userId a) a g e)"
    using that by (simp add: executeAd_def broadcastAd_def broadcastLoop_all)
  show ?thesis
    using indep full by (simp add: s updateAdStats_rate)
qed

theorem dispatch_leaves_rate_guard_aside_witness:
  "isUserConnected onlineServer (userId exampleAd)
   \<and> snd (snd (executeAd onlineServer exampleAd allDelivered 0)) = [''g1'', ''g2'', ''g3'']
   \<and> userActivity (rate (fst (snd (executeAd onlineServer exampleAd allDelivered 0)))) = (\<lambda>k. None)"
proof -
  have u: "userId exampleAd = ''u1''" and gs: "groups exampleAd = [''g1'', ''g2'', ''g3'']"
    by (simp_all add: exampleAd_def)
  have c: "isUserConnected onlineServer (userId exampleAd)"
    using example_connected by (simp add: u)
  have all: "\<forall>(g, e) \<in> set (attemptsOf allDelivered 0 (groups exampleAd)).
               returns (sendAd (userId exampleAd) exampleAd g e)"
    by (simp add: gs exampleAttempts returns_sendAd allDelivered_def hasImage_def)
  have e: "userActivity (rate onlineServer) = (\<lambda>k. None)"
    by (simp add: onlineServer_def newService_def)
  from dispatch_leaves_rate_guard_aside [of onlineServer exampleAd allDelivered 0] c all e gs
  show ?thesis by simp
qed

text \<open>
  C2. The dispatcher is to consult the rate guard before it sends and to record every
  attempt, and the server builds an \<^verbatim>\<open>AntiSpamService\<close> for this and announces
  anti-spam as active; but the service is never called. With a ceiling of two messages
  per hour \<^verbatim>\<open>validateBroadcast\<close> rejects a batch of three groups, yet
  \<^verbatim>\<open>executeAd\<close> attempts all three, and no activity is recorded for the user.
\<close>

theorem rejected_batch_is_sent_anyway:
  "fst (validateBroadcast (rate onlineServer) ''u1'' (groups exampleAd) 0) = Invalid_rate_limit 2
   \<and> snd (snd (executeAd onlineServer exampleAd allDelivered 0)) = [''g1'', ''g2'', ''g3'']
   \<and> userActivity (rate (fst (snd (executeAd onlineServer exampleAd allDelivered 0)))) (''u1'', 0) = None"
proof -
  have v: "fst (validateBroadcast (rate onlineServer) ''u1'' (groups exampleAd) 0) = Invalid_rate_limit 2"
    by (simp add: validateBroadcast_def onlineServer_def newService_def isUserBlocked_def
          getUserActivity_def exampleAd_def Let_def)
  have gs: "groups exampleAd = [''g1'', ''g2'', ''g3'']" and u: "userId exampleAd = ''u1''"
    by (simp_all add: exampleAd_def)
  have b: "broadcastAd onlineServer ''u1'' exampleAd allDelivered =
             (Returned \<lparr>totalCount = 3, sent = 3, failed = 0, errorList = []\<rparr>, [''g1'', ''g2'', ''g3''])"
    by (simp add: broadcastAd_def example_connected gs sendAd_def allDelivered_def hasImage_def
          sendMessage_def tally_def)
  have x: "snd (snd (executeAd onlineServer exampleAd allDelivered 0)) = [''g1'', ''g2'', ''g3'']"
    by (simp add: executeAd_def u example_connected b)
  have y: "userActivity (rate (fst (snd (executeAd onlineServer exampleAd allDelivered 0)))) (''u1'', 0) = None"
    by (simp add: executeAd_def u example_connected b updateAdStats_rate)
       (simp add: onlineServer_def newService_def)
  from v x y show ?thesis by simp
qed

section \<open>Facts about the scheduler\<close>

lemma parse_anchor:
  "parseDateTime ''2025-01-01 10:00'' = Some atTheAnchor"
  by (simp add: parseDateTime_def digit_def daysInMonth_def Let_def isLeapYear_def atTheAnchor_def)

lemma parse_past:
  "parseDateTime ''2024-06-01 10:00'' = Some juneFirst"
  by (simp add: parseDateTime_def digit_def daysInMonth_def Let_def isLeapYear_def juneFirst_def)

lemma registered_ad1:
  "registered ''ad1'' =
     Some \<lparr>taskAd = exampleAd,
           taskCron = \<lparr>cronMinute = 0, cronHour = 10, cronDayOfMonth = None, cronMonth = None,
                        cronDayOfWeek = None\<rparr>,
           nextExecution = atTheAnchor, taskRepeat = ''daily''\<rparr>"
proof -
  have t: "scheduleText (scheduleDate exampleAd) (scheduleTime exampleAd) = ''2025-01-01 10:00''"
    by (simp add: scheduleText_def exampleAd_def)
  have f: "\<not> falsy (scheduleDate exampleAd)" "\<not> falsy (scheduleTime exampleAd)"
    by (simp_all add: falsy_def exampleAd_def)
  have b: "\<not> isBefore atTheAnchor dayBefore"
    by (simp add: isBefore_def atTheAnchor_def dayBefore_def)
  have c: "cronFor ''daily'' atTheAnchor =
             \<lparr>cronMinute = 0, cronHour = 10, cronDayOfMonth = None, cronMonth = None, cronDayOfWeek = None\<rparr>"
    by (simp add: cronFor_def atTheAnchor_def Let_def)
  have i: "idOf exampleAd = ''ad1''" "repeat exampleAd = ''daily''" by (simp_all add: exampleAd_def)
  show ?thesis
    by (simp add: registered_def scheduleAd_def f t parse_anchor b i c)
qed

lemma advance_spec:
  "\<exists>n. advance k now a = (addOne k ^^ n) a
       \<and> \<not> isBefore ((addOne k ^^ n) a) now
       \<and> (\<forall>j<n. isBefore ((addOne k ^^ j) a) now)"
proof (induction k now a rule: advance.induct)
  case (1 k now a)
  show ?case
  proof (cases "isBefore a now")
    case False
    then have "advance k now a = a"
      by (subst advance.simps) simp
    with False have "advance k now a = (addOne k ^^ 0) a" "\<not> isBefore ((addOne k ^^ 0) a) now"
      by simp_all
    moreover have "\<forall>j<(0::nat). isBefore ((addOne k ^^ j) a) now" by simp
    ultimately show ?thesis by blast
  next
    case True
    from "1.IH" [OF True] obtain n where
      n: "advance k now (addOne k a) = (addOne k ^^ n) (addOne k a)"
         "\<not> isBefore ((addOne k ^^ n) (addOne k a)) now"
         "\<forall>j<n. isBefore ((addOne k ^^ j) (addOne k a)) now"
      by blast
    have eq: "(addOne k ^^ m) (addOne k a) = (addOne k ^^ Suc m) a" for m
      by (simp only: funpow_Suc_right o_apply)
    have unf: "advance k now a = advance k now (addOne k a)"
      using True by (subst advance.simps) simp
    have "advance k now a = (addOne k ^^ Suc n) a"
      unfolding unf n(1) eq ..
    moreover have "\<not> isBefore ((addOne k ^^ Suc n) a) now"
      using n(2) unfolding eq .
    moreover have "\<forall>j<Suc n. isBefore ((addOne k ^^ j) a) now"
    proof (intro allI impI)
      fix j assume "j < Suc n"
      show "isBefore ((addOne k ^^ j) a) now"
      proof (cases j)
        case 0
        then show ?thesis using True by simp
      next
        case (Suc i)
        with \<open>j < Suc n\<close> have "i < n" by simp
        with n(3) have "isBefore ((addOne k ^^ i) (addOne k a)) now" by blast
        then show ?thesis unfolding eq Suc .
      qed
    qed
    ultimately show ?thesis by blast
  qed
qed

lemma addOne_time_of_day:
  "hour (addOne k m) = hour m \<and> minute (addOne k m) = minute m
   \<and> second (addOne k m) = second m \<and> millisecond (addOne k m) = millisecond m"
proof -
  have d: "hour (addDay x) = hour x \<and> minute (addDay x) = minute x
           \<and> second (addDay x) = second x \<and> millisecond (addDay x) = millisecond x" for x
    by (simp add: addDay_def)
  have n: "hour ((addDay ^^ n) x) = hour x \<and> minute ((addDay ^^ n) x) = minute x
           \<and> second ((addDay ^^ n) x) = second x \<and> millisecond ((addDay ^^ n) x) = millisecond x" for n x
    by (induction n) (simp_all add: d)
  show ?thesis
    by (cases k) (simp_all add: d n addMonths_def del: funpow.simps)
qed

lemma registered_db: "getAd [exampleAd] ''ad1'' = Some exampleAd"
  by (simp add: getAd_def exampleAd_def)

lemma example_text:
  "parseDateTime (scheduleText (scheduleDate exampleAd) (scheduleTime exampleAd)) = Some atTheAnchor"
  by (simp add: scheduleText_def exampleAd_def parse_anchor)

lemma example_daily: "recurrenceOf (repeat exampleAd) = Some Daily"
  by (simp add: recurrenceOf_def exampleAd_def)

lemma anchor_next: "addOne Daily atTheAnchor = nextMorning"
  by (simp add: addDay_def atTheAnchor_def nextMorning_def daysInMonth_def Let_def)

section \<open>Campaigns that cannot be scheduled\<close>

text \<open>
  C4, as amended. For every campaign whose date or time is missing, whose date and
  time give no valid moment, or whose moment is before the current time,
  \<^verbatim>\<open>scheduleAd\<close> creates no timer: it leaves the registry exactly as it was and
  returns normally, as it does after a registration. \<^verbatim>\<open>validateSchedule\<close> answers
  not valid for the same campaigns, with the error that names the reason.
\<close>

theorem unusable_schedule_is_skipped:
  assumes "falsy (scheduleDate a) \<or> falsy (scheduleTime a)
           \<or> parse (scheduleText (scheduleDate a) (scheduleTime a)) = None
           \<or> (\<exists>m. parse (scheduleText (scheduleDate a) (scheduleTime a)) = Some m \<and> isBefore m now)"
  shows "scheduleAd parse now ts a = (Returned (), ts)
         \<and> validateSchedule parse now (scheduleDate a) (scheduleTime a) \<noteq> ScheduleValid
         \<and> validateSchedule parse now (scheduleDate a) (scheduleTime a) =
             (if falsy (scheduleDate a) \<or> falsy (scheduleTime a) then DateAndTimeRequired
              else if parse (scheduleText (scheduleDate a) (scheduleTime a)) = None then InvalidDateTime
              else InThePast)"
  using assms
  by (auto simp add: scheduleAd_def validateSchedule_def split: option.splits)

theorem unusable_schedule_is_skipped_witness:
  "isBefore juneFirst dayBefore
   \<and> scheduleAd parseDateTime dayBefore registered pastAd = (Returned (), registered)
   \<and> validateSchedule parseDateTime dayBefore (scheduleDate pastAd) (scheduleTime pastAd) = InThePast"
proof -
  have t: "scheduleText (scheduleDate pastAd) (scheduleTime pastAd) = ''2024-06-01 10:00''"
    by (simp add: scheduleText_def pastAd_def exampleAd_def)
  have b: "isBefore juneFirst dayBefore"
    by (simp add: isBefore_def dayBefore_def juneFirst_def)
  have f: "\<not> falsy (scheduleDate pastAd)" "\<not> falsy (scheduleTime pastAd)"
    by (simp_all add: falsy_def pastAd_def exampleAd_def)
  have h: "falsy (scheduleDate pastAd) \<or> falsy (scheduleTime pastAd)
           \<or> parseDateTime (scheduleText (scheduleDate pastAd) (scheduleTime pastAd)) = None
           \<or> (\<exists>m. parseDateTime (scheduleText (scheduleDate pastAd) (scheduleTime pastAd)) = Some m
                 \<and> isBefore m dayBefore)"
    using b by (simp add: t parse_past)
  from unusable_schedule_is_skipped [of pastAd parseDateTime dayBefore registered, OF h] b f
  show ?thesis by (simp add: t parse_past)
qed

text \<open>
  The claim as it was stated fails: for a campaign of the past \<^verbatim>\<open>scheduleAd\<close> does
  not reject, it returns as it does for a campaign it registers; only the registry
  tells the two apart.
\<close>

theorem past_schedule_is_not_rejected:
  "fst (scheduleAd parseDateTime dayBefore (\<lambda>i. None) pastAd) = Returned ()
   \<and> snd (scheduleAd parseDateTime dayBefore (\<lambda>i. None) pastAd) ''ad2'' = None
   \<and> fst (scheduleAd parseDateTime dayBefore (\<lambda>i. None) exampleAd) = Returned ()
   \<and> snd (scheduleAd parseDateTime dayBefore (\<lambda>i. None) exampleAd) ''ad1'' \<noteq> None"
proof -
  have t: "scheduleText (scheduleDate pastAd) (scheduleTime pastAd) = ''2024-06-01 10:00''"
    by (simp add: scheduleText_def pastAd_def exampleAd_def)
  have b: "isBefore juneFirst dayBefore"
    by (simp add: isBefore_def dayBefore_def juneFirst_def)
  have f: "\<not> falsy (scheduleDate pastAd)" "\<not> falsy (scheduleTime pastAd)"
    by (simp_all add: falsy_def pastAd_def exampleAd_def)
  have p: "scheduleAd parseDateTime dayBefore (\<lambda>i. None) pastAd = (Returned (), (\<lambda>i. None))"
    by (simp add: scheduleAd_def f t parse_past b)
  have e: "fst (scheduleAd parseDateTime dayBefore (\<lambda>i. None) exampleAd) = Returned ()"
    by (simp add: scheduleAd_def split: option.splits)
  have r: "snd (scheduleAd parseDateTime dayBefore (\<lambda>i. None) exampleAd) ''ad1'' \<noteq> None"
    using registered_ad1 by (simp add: registered_def)
  from p e r show ?thesis by simp
qed

section \<open>The next execution time\<close>

text \<open>
  C6, as amended. For a campaign that repeats, has a timer and is in the database
  with a valid moment (the anchor), \<^verbatim>\<open>getNextExecutionTime\<close> returns the first of
  the moments anchor, anchor plus one unit, anchor plus two units and so on that is
  not before the current time; every one before it is before the current time, and
  none of them is fired. So it returns the anchor while the anchor is not yet past,
  and the anchor plus exactly one unit from then until that moment is past. A unit is
  one day, seven days, one month or twelve months, added to the moment reached; a
  month or a year later the day of the month is cut down to the last day of that
  month; the time of day stays.
\<close>

theorem next_execution_time:
  assumes "ts i = Some task" and "getAd db i = Some a"
    and "parse (scheduleText (scheduleDate a) (scheduleTime a)) = Some anchor"
    and "recurrenceOf (repeat a) = Some k"
  shows "(\<exists>n. getNextExecutionTime parse now ts db i = Some ((addOne k ^^ n) anchor)
              \<and> \<not> isBefore ((addOne k ^^ n) anchor) now
              \<and> (\<forall>j<n. isBefore ((addOne k ^^ j) anchor) now))
       \<and> (\<not> isBefore anchor now \<longrightarrow> getNextExecutionTime parse now ts db i = Some anchor)
       \<and> (isBefore anchor now \<and> \<not> isBefore (addOne k anchor) now \<longrightarrow>
            getNextExecutionTime parse now ts db i = Some (addOne k anchor))
       \<and> addOne Daily anchor = addDay anchor
       \<and> addOne Weekly anchor = addDay (addDay (addDay (addDay (addDay (addDay (addDay anchor))))))
       \<and> monthIndex (addOne Monthly anchor) = monthIndex anchor + 1
       \<and> date (addOne Monthly anchor) = min (date anchor) (daysInMonth (monthIndex anchor + 1))
       \<and> monthIndex (addOne Yearly anchor) = monthIndex anchor + 12
       \<and> date (addOne Yearly anchor) = min (date anchor) (daysInMonth (monthIndex anchor + 12))
       \<and> hour (addOne k anchor) = hour anchor \<and> minute (addOne k anchor) = minute anchor
       \<and> second (addOne k anchor) = second anchor \<and> millisecond (addOne k anchor) = millisecond anchor"
proof -
  have g: "getNextExecutionTime parse now ts db i = Some (advance k now anchor)"
    using assms by (simp add: getNextExecutionTime_def)
  have one: "\<exists>n. getNextExecutionTime parse now ts db i = Some ((addOne k ^^ n) anchor)
              \<and> \<not> isBefore ((addOne k ^^ n) anchor) now
              \<and> (\<forall>j<n. isBefore ((addOne k ^^ j) anchor) now)"
    using advance_spec [of k now anchor] by (simp only: g option.inject)
  have two: "getNextExecutionTime parse now ts db i = Some anchor" if "\<not> isBefore anchor now"
  proof -
    have "advance k now anchor = anchor"
      using that by (subst advance.simps) simp
    then show ?thesis by (simp only: g)
  qed
  have three: "getNextExecutionTime parse now ts db i = Some (addOne k anchor)"
    if "isBefore anchor now \<and> \<not> isBefore (addOne k anchor) now"
  proof -
    have "advance k now anchor = advance k now (addOne k anchor)"
      using that by (subst advance.simps) simp
    also have "\<dots> = addOne k anchor"
      using that by (subst advance.simps) simp
    finally show ?thesis by (simp only: g)
  qed
  have week: "addOne Weekly anchor = addDay (addDay (addDay (addDay (addDay (addDay (addDay anchor))))))"
    by (simp add: eval_nat_numeral)
  have month: "monthIndex (addOne Monthly anchor) = monthIndex anchor + 1"
      "date (addOne Monthly anchor) = min (date anchor) (daysInMonth (monthIndex anchor + 1))"
    and year: "monthIndex (addOne Yearly anchor) = monthIndex anchor + 12"
      "date (addOne Yearly anchor) = min (date anchor) (daysInMonth (monthIndex anchor + 12))"
    by (simp_all add: addMonths_def)
  have day: "addOne Daily anchor = addDay anchor" by simp
  note tod = addOne_time_of_day [of k anchor]
  from one two three day week month year tod show ?thesis
    by (intro conjI impI) blast+
qed

text \<open>
  For the daily campaign anchored at 2025-01-01 10:00, five seconds after the anchor
  the next execution time is 2025-01-02 10:00.
\<close>

theorem next_execution_time_witness:
  "registered ''ad1'' \<noteq> None \<and> getAd [exampleAd] ''ad1'' = Some exampleAd
   \<and> recurrenceOf (repeat exampleAd) = Some Daily
   \<and> isBefore atTheAnchor afterTheRun \<and> \<not> isBefore nextMorning afterTheRun
   \<and> getNextExecutionTime parseDateTime afterTheRun registered [exampleAd] ''ad1'' = Some nextMorning"
proof -
  have b: "isBefore atTheAnchor afterTheRun" "\<not> isBefore nextMorning afterTheRun"
    by (simp_all add: isBefore_def atTheAnchor_def afterTheRun_def nextMorning_def)
  from next_execution_time [of registered "''ad1''" _ "[exampleAd]" exampleAd parseDateTime atTheAnchor
         Daily afterTheRun, OF registered_ad1 registered_db example_text example_daily] b
  show ?thesis
    by (simp only: anchor_next registered_ad1 registered_db example_daily) simp
qed

text \<open>
  The claim as it was stated, that the result is in the future and one unit after the
  anchor, fails at the boundary: asked at the anchor itself the function returns the
  anchor, and asked at 2025-01-02 10:00 sharp it returns that very moment.
\<close>

theorem next_execution_time_not_after_now:
  "getNextExecutionTime parseDateTime atTheAnchor registered [exampleAd] ''ad1'' = Some atTheAnchor
   \<and> \<not> isBefore atTheAnchor atTheAnchor
   \<and> getNextExecutionTime parseDateTime nextMorning registered [exampleAd] ''ad1'' = Some nextMorning
   \<and> \<not> isBefore nextMorning nextMorning"
proof -
  have g: "getNextExecutionTime parseDateTime now registered [exampleAd] ''ad1''
             = Some (advance Daily now atTheAnchor)" for now
    by (simp add: getNextExecutionTime_def registered_ad1 registered_db example_text example_daily)
  have irr: "\<not> isBefore m m" for m by (simp add: isBefore_def)
  have a: "advance Daily atTheAnchor atTheAnchor = atTheAnchor"
    by (subst advance.simps) (simp add: irr)
  have lt: "isBefore atTheAnchor nextMorning"
    by (simp add: isBefore_def atTheAnchor_def nextMorning_def)
  have "advance Daily nextMorning atTheAnchor = advance Daily nextMorning (addOne Daily atTheAnchor)"
    using lt by (subst advance.simps) simp
  also have "\<dots> = nextMorning"
    unfolding anchor_next by (subst advance.simps) (simp add: irr)
  finally have n: "advance Daily nextMorning atTheAnchor = nextMorning" .
  have r1: "getNextExecutionTime parseDateTime atTheAnchor registered [exampleAd] ''ad1'' = Some atTheAnchor"
    by (simp only: g a)
  have r2: "getNextExecutionTime parseDateTime nextMorning registered [exampleAd] ''ad1'' = Some nextMorning"
    by (simp only: g n)
  from r1 r2 irr [of atTheAnchor] irr [of nextMorning] show ?thesis by blast
qed

section \<open>Disconnecting while a reconnection is pending\<close>

text \<open>
  C9. A close whose status is the logout schedules no reconnection, but
  \<^verbatim>\<open>disconnectUser\<close> does not cancel one that is already pending. User u1 connects
  and the socket opens; the socket closes with status 408 and a reconnection is
  scheduled; u1 disconnects before the timer fires, after which u1 has no entry and is
  not connected, and the timer is still pending; the timer fires and a new socket is
  made for u1, with no call of the interface in between.
\<close>

theorem pending_reconnect_outlives_disconnect:
  "(let up = run offlineServer [ConnectCall ''u1'', SocketOpen ''u1'' 0];
        lost = step up (SocketClose ''u1'' (Some 408));
        left = step lost (DisconnectCall ''u1'' False);
        fired = step left TimerFires
    in isUserConnected up ''u1''
       \<and> shouldReconnect (Some 408) \<and> \<not> shouldReconnect (Some loggedOut)
       \<and> reconnectTimers (step up (SocketClose ''u1'' (Some loggedOut))) = []
       \<and> connections left ''u1'' = None \<and> \<not> isUserConnected left ''u1''
       \<and> reconnectTimers left = [''u1'']
       \<and> connections fired ''u1'' = Some \<lparr>sock = 1, connected = False, readyState = 0\<rparr>)"
  by (simp add: run_def offlineServer_def connectUser_def onOpen_def onClose_def
        disconnectUser_def timerFires_def isUserConnected_def shouldReconnect_def
        loggedOut_def forbidden_def Let_def)

end
